theory Spec2Isabelle
  imports Complex_Main "HOL-Library.Word"
begin

section \<open>JavaScript numbers in exact arithmetic\<close>

text \<open>
  The rasters of TectonicsModeling.js are typed arrays of floating point numbers and all
  arithmetic on them is JavaScript number arithmetic.  The model keeps the special values
  of that arithmetic (the two infinities and not-a-number, which the erosion code meets
  whenever it divides by zero) and computes on finite values exactly, over the reals:
  rounding, overflow and the sign of zero are not modelled (every zero behaves as +0).
\<close>

datatype jsnum = is_Fin: Fin (the_Fin: real) | PInf | NInf | NaN

fun jneg :: "jsnum \<Rightarrow> jsnum" where
  "jneg (Fin a) = Fin (- a)"
| "jneg PInf = NInf"
| "jneg NInf = PInf"
| "jneg NaN = NaN"

fun jadd :: "jsnum \<Rightarrow> jsnum \<Rightarrow> jsnum" where
  "jadd (Fin a) (Fin b) = Fin (a + b)"
| "jadd NaN y = NaN"
| "jadd x NaN = NaN"
| "jadd PInf NInf = NaN"
| "jadd NInf PInf = NaN"
| "jadd PInf y = PInf"
| "jadd x PInf = PInf"
| "jadd NInf y = NInf"
| "jadd x NInf = NInf"

definition jsub :: "jsnum \<Rightarrow> jsnum \<Rightarrow> jsnum" where
  "jsub x y = jadd x (jneg y)"

fun jmul :: "jsnum \<Rightarrow> jsnum \<Rightarrow> jsnum" where
  "jmul (Fin a) (Fin b) = Fin (a * b)"
| "jmul NaN y = NaN"
| "jmul x NaN = NaN"
| "jmul (Fin a) PInf = (if a = 0 then NaN else if 0 < a then PInf else NInf)"
| "jmul (Fin a) NInf = (if a = 0 then NaN else if 0 < a then NInf else PInf)"
| "jmul PInf (Fin b) = (if b = 0 then NaN else if 0 < b then PInf else NInf)"
| "jmul NInf (Fin b) = (if b = 0 then NaN else if 0 < b then NInf else PInf)"
| "jmul PInf PInf = PInf"
| "jmul PInf NInf = NInf"
| "jmul NInf PInf = NInf"
| "jmul NInf NInf = PInf"

fun jdiv :: "jsnum \<Rightarrow> jsnum \<Rightarrow> jsnum" where
  "jdiv (Fin a) (Fin b) =
     (if b \<noteq> 0 then Fin (a / b)
      else if a = 0 then NaN else if 0 < a then PInf else NInf)"
| "jdiv NaN y = NaN"
| "jdiv x NaN = NaN"
| "jdiv (Fin a) PInf = Fin 0"
| "jdiv (Fin a) NInf = Fin 0"
| "jdiv PInf (Fin b) = (if 0 \<le> b then PInf else NInf)"
| "jdiv NInf (Fin b) = (if 0 \<le> b then NInf else PInf)"
| "jdiv PInf PInf = NaN"
| "jdiv PInf NInf = NaN"
| "jdiv NInf PInf = NaN"
| "jdiv NInf NInf = NaN"

text \<open>The comparison \<open>x > y\<close>: false as soon as one side is not-a-number.\<close>

fun jgt :: "jsnum \<Rightarrow> jsnum \<Rightarrow> bool" where
  "jgt (Fin a) (Fin b) = (b < a)"
| "jgt NaN y = False"
| "jgt x NaN = False"
| "jgt PInf PInf = False"
| "jgt PInf y = True"
| "jgt x PInf = False"
| "jgt NInf y = False"
| "jgt x NInf = True"

definition jlt :: "jsnum \<Rightarrow> jsnum \<Rightarrow> bool" where
  "jlt x y = jgt y x"

text \<open>\<open>x || 0\<close>: the falsy numbers are zero and not-a-number.\<close>

definition jor0 :: "jsnum \<Rightarrow> jsnum" where
  "jor0 x = (if x = NaN \<or> x = Fin 0 then Fin 0 else x)"

text \<open>
  Reading a raster: an index past the end of a typed array reads \<open>undefined\<close>, which every
  arithmetic operation and comparison of this file treats as not-a-number.  Writing is
  \<open>xs[i := v]\<close>: a typed array ignores a write past its end, as \<open>list_update\<close> does.
\<close>

type_synonym raster = "jsnum list"

definition raster_get :: "raster \<Rightarrow> nat \<Rightarrow> jsnum" where
  "raster_get xs i = (if i < length xs then xs ! i else NaN)"

section \<open>Isostasy: get_displacement\<close>

definition get_displacement :: "raster \<Rightarrow> raster \<Rightarrow> jsnum \<Rightarrow> raster \<Rightarrow> raster" where
  "get_displacement thickness density mantleDensity displacement =
     (let inverse_mantle_density = jdiv (Fin 1) mantleDensity
      in fold (\<lambda>i displacement.
                 let thickness_i = raster_get thickness i
                 in displacement[i := jsub thickness_i
                      (jmul (jmul thickness_i (raster_get density i)) inverse_mantle_density)])
              [0..<length displacement] displacement)"

section \<open>Erosion: get_erosion\<close>

text \<open>
  A crust is a bundle of rasters over one grid; a grid gives the directed edges between
  neighbouring cells (\<open>arrows\<close>) and the number of neighbours of every cell.  A raster
  over a grid has one entry per cell of the grid, so the length of the displacement
  raster stands for the cell count wherever the code allocates a raster for
  \<open>displacement.grid\<close>.  Rasters are passed by value: the caller hands get_erosion three
  bundles that share no raster.
\<close>

record crust =
  sediment :: raster
  sedimentary :: raster
  metamorphic :: raster
  sial :: raster
  sima :: raster

record grid =
  arrows :: "(nat \<times> nat) list"
  neighbor_count :: "nat list"

definition count_get :: "nat list \<Rightarrow> nat \<Rightarrow> jsnum" where
  "count_get counts i = (if i < length counts then Fin (real (counts ! i)) else NaN)"

text \<open>
  Modelled from the spec: \<open>Crust.reset\<close> is called by get_erosion and is not part of the
  sources.  The delta bundle "holds signed per-step changes" that a step with nothing to
  move "leaves at zero": the reset fills every raster of the bundle with 0.
\<close>

definition Crust_reset :: "crust \<Rightarrow> crust" where
  "Crust_reset c =
     \<lparr>sediment = replicate (length (sediment c)) (Fin 0),
      sedimentary = replicate (length (sedimentary c)) (Fin 0),
      metamorphic = replicate (length (metamorphic c)) (Fin 0),
      sial = replicate (length (sial c)) (Fin 0),
      sima = replicate (length (sima c)) (Fin 0)\<rparr>"

text \<open>
  Modelled from the spec: \<open>ScalarField.sub_scalar\<close> and \<open>ScalarField.max_scalar\<close> are
  not part of the sources; they are the elementwise operations of
  \<open>water_height = max(displacement - sealevel, 0)\<close>.
\<close>

definition sub_scalar :: "raster \<Rightarrow> jsnum \<Rightarrow> raster" where
  "sub_scalar field scalar = map (\<lambda>x. jsub x scalar) field"

definition max_scalar :: "raster \<Rightarrow> jsnum \<Rightarrow> raster" where
  "max_scalar field scalar = map (\<lambda>x. if jgt x scalar then x else scalar) field"

definition precipitation :: jsnum where
  "precipitation = Fin 780000"

definition erosiveFactor :: jsnum where
  "erosiveFactor = Fin (18 / 100000000)"

text \<open>
  The flux candidate of one arrow, the expression that both loops over the arrows
  compute: \<open>height_difference > 0 ? height_difference * precipitation * timestep *
  erosiveFactor : 0\<close>.
\<close>

definition outbound :: "raster \<Rightarrow> jsnum \<Rightarrow> nat \<times> nat \<Rightarrow> jsnum" where
  "outbound water_height timestep arrow =
     (let height_difference =
            jsub (raster_get water_height (fst arrow)) (raster_get water_height (snd arrow))
      in if jgt height_difference (Fin 0)
         then jmul (jmul (jmul height_difference precipitation) timestep) erosiveFactor
         else Fin 0)"

text \<open>First loop: \<open>outbound_height_transfer[from] += ...\<close> for every arrow.\<close>

definition flux_pass :: "(nat \<times> nat) list \<Rightarrow> raster \<Rightarrow> jsnum \<Rightarrow> raster \<Rightarrow> raster" where
  "flux_pass arrs water_height timestep outbound_height_transfer =
     fold (\<lambda>arrow obt.
             obt[fst arrow := jadd (raster_get obt (fst arrow))
                                   (outbound water_height timestep arrow)])
          arrs outbound_height_transfer"

text \<open>\<open>fraction > 1? 1 : fraction < 0? 0 : fraction\<close>\<close>

definition clamp01 :: "jsnum \<Rightarrow> jsnum" where
  "clamp01 fraction =
     (if jgt fraction (Fin 1) then Fin 1 else if jlt fraction (Fin 0) then Fin 0 else fraction)"

text \<open>
  The four statements the second loop repeats for each reservoir, from the reservoir's
  quantity, the remaining flux candidate \<open>outbound_height_transfer_i\<close> and the cell's
  neighbour count to the stored outbound fraction and the new remaining candidate.
\<close>

definition withdraw :: "jsnum \<Rightarrow> jsnum \<Rightarrow> jsnum \<Rightarrow> jsnum \<times> jsnum" where
  "withdraw quantity outbound_height_transfer_i count =
     (let fraction = clamp01 (jdiv quantity outbound_height_transfer_i)
      in (jor0 (jdiv fraction count),
          jmul outbound_height_transfer_i (jsub (Fin 1) fraction)))"

definition cell_fractions ::
  "crust \<Rightarrow> nat list \<Rightarrow> raster \<Rightarrow> nat \<Rightarrow> jsnum \<times> jsnum \<times> jsnum \<times> jsnum" where
  "cell_fractions top_crust counts outbound_height_transfer i =
     (let o0 = raster_get outbound_height_transfer i;
          (f1, o1) = withdraw (raster_get (sediment top_crust) i) o0 (count_get counts i);
          (f2, o2) = withdraw (raster_get (sedimentary top_crust) i) o1 (count_get counts i);
          (f3, o3) = withdraw (raster_get (metamorphic top_crust) i) o2 (count_get counts i);
          (f4, o4) = withdraw (raster_get (sial top_crust) i) o3 (count_get counts i)
      in (f1, f2, f3, f4))"

text \<open>Second loop: the fractions of every cell, stored in the scratch bundle.\<close>

definition fraction_pass :: "crust \<Rightarrow> nat list \<Rightarrow> raster \<Rightarrow> crust \<Rightarrow> crust" where
  "fraction_pass top_crust counts outbound_height_transfer crust_scratch =
     fold (\<lambda>i s. case cell_fractions top_crust counts outbound_height_transfer i of
                    (f1, f2, f3, f4) \<Rightarrow>
                      s\<lparr>sediment := (sediment s)[i := f1],
                        sedimentary := (sedimentary s)[i := f2],
                        metamorphic := (metamorphic s)[i := f3],
                        sial := (sial s)[i := f4]\<rparr>)
          [0..<length outbound_height_transfer] crust_scratch"

text \<open>\<open>delta[from] -= transfer; delta[to] += transfer\<close>\<close>

definition move :: "jsnum \<Rightarrow> nat \<times> nat \<Rightarrow> raster \<Rightarrow> raster" where
  "move transfer arrow delta =
     (let d = delta[fst arrow := jsub (raster_get delta (fst arrow)) transfer]
      in d[snd arrow := jadd (raster_get d (snd arrow)) transfer])"

text \<open>Third loop: the transfers along every arrow, for the four reservoirs.\<close>

definition transfer_pass ::
  "(nat \<times> nat) list \<Rightarrow> raster \<Rightarrow> jsnum \<Rightarrow> crust \<Rightarrow> crust \<Rightarrow> crust" where
  "transfer_pass arrs water_height timestep fractions crust_delta =
     fold (\<lambda>arrow d.
             let outbound_height_transfer_i = outbound water_height timestep arrow
             in d\<lparr>sediment :=
                    move (jmul outbound_height_transfer_i
                            (raster_get (sediment fractions) (fst arrow))) arrow (sediment d),
                  sedimentary :=
                    move (jmul outbound_height_transfer_i
                            (raster_get (sedimentary fractions) (fst arrow))) arrow (sedimentary d),
                  metamorphic :=
                    move (jmul outbound_height_transfer_i
                            (raster_get (metamorphic fractions) (fst arrow))) arrow (metamorphic d),
                  sial :=
                    move (jmul outbound_height_transfer_i
                            (raster_get (sial fractions) (fst arrow))) arrow (sial d)\<rparr>)
          arrs crust_delta"

text \<open>
  get_erosion returns nothing and leaves its results in \<open>crust_delta\<close> and
  \<open>crust_scratch\<close>: the model returns the two bundles.  The scratchpad only lends the
  two rasters \<open>water_height\<close> and \<open>outbound_height_transfer\<close>, both overwritten in full
  before they are read.
\<close>

definition get_erosion ::
  "raster \<Rightarrow> grid \<Rightarrow> jsnum \<Rightarrow> jsnum \<Rightarrow> crust \<Rightarrow> crust \<Rightarrow> crust \<Rightarrow> crust \<times> crust" where
  "get_erosion displacement g sealevel timestep top_crust crust_delta crust_scratch =
     (let delta0 = Crust_reset crust_delta;
          water_height = max_scalar (sub_scalar displacement sealevel) (Fin 0);
          outbound_height_transfer =
            flux_pass (arrows g) water_height timestep (replicate (length displacement) (Fin 0));
          fractions =
            fraction_pass top_crust (neighbor_count g) outbound_height_transfer crust_scratch;
          delta = transfer_pass (arrows g) water_height timestep fractions delta0
      in (delta, fractions))"

text \<open>
  The caller adds the deltas to the crust after the step; \<open>jsum\<close> is the sum of a raster
  and \<open>crust_total\<close> the mass of the four reservoirs.
\<close>

definition apply_delta :: "crust \<Rightarrow> crust \<Rightarrow> crust" where
  "apply_delta c d =
     \<lparr>sediment = map2 jadd (sediment c) (sediment d),
      sedimentary = map2 jadd (sedimentary c) (sedimentary d),
      metamorphic = map2 jadd (metamorphic c) (metamorphic d),
      sial = map2 jadd (sial c) (sial d),
      sima = map2 jadd (sima c) (sima d)\<rparr>"

definition jsum :: "raster \<Rightarrow> jsnum" where
  "jsum xs = fold (\<lambda>x s. jadd s x) xs (Fin 0)"

definition crust_total :: "crust \<Rightarrow> jsnum" where
  "crust_total c =
     jadd (jadd (jadd (jsum (sediment c)) (jsum (sedimentary c))) (jsum (metamorphic c)))
          (jsum (sial c))"

text \<open>
  The inputs the contract of get_erosion admits: every arrow joins two cells of the grid,
  the neighbour count of a cell is the number of arrows that leave it, and every raster of
  a bundle has one entry per cell.
\<close>

definition valid_grid :: "grid \<Rightarrow> nat \<Rightarrow> bool" where
  "valid_grid g n =
     (length (neighbor_count g) = n
      \<and> (\<forall>arrow \<in> set (arrows g). fst arrow < n \<and> snd arrow < n)
      \<and> (\<forall>c < n. neighbor_count g ! c = length (filter (\<lambda>arrow. fst arrow = c) (arrows g))))"

definition crust_over :: "crust \<Rightarrow> nat \<Rightarrow> bool" where
  "crust_over c n =
     (length (sediment c) = n \<and> length (sedimentary c) = n
      \<and> length (metamorphic c) = n \<and> length (sial c) = n)"

definition finite_raster :: "raster \<Rightarrow> bool" where
  "finite_raster xs = list_all is_Fin xs"

definition finite_crust :: "crust \<Rightarrow> bool" where
  "finite_crust c =
     (finite_raster (sediment c) \<and> finite_raster (sedimentary c)
      \<and> finite_raster (metamorphic c) \<and> finite_raster (sial c))"

text \<open>The four fractions that the second loop stores for a cell.\<close>

definition fraction1 :: "crust \<Rightarrow> nat list \<Rightarrow> raster \<Rightarrow> nat \<Rightarrow> jsnum" where
  "fraction1 top_crust counts obt i = fst (cell_fractions top_crust counts obt i)"

definition fraction2 :: "crust \<Rightarrow> nat list \<Rightarrow> raster \<Rightarrow> nat \<Rightarrow> jsnum" where
  "fraction2 top_crust counts obt i = fst (snd (cell_fractions top_crust counts obt i))"

definition fraction3 :: "crust \<Rightarrow> nat list \<Rightarrow> raster \<Rightarrow> nat \<Rightarrow> jsnum" where
  "fraction3 top_crust counts obt i = fst (snd (snd (cell_fractions top_crust counts obt i)))"

definition fraction4 :: "crust \<Rightarrow> nat list \<Rightarrow> raster \<Rightarrow> nat \<Rightarrow> jsnum" where
  "fraction4 top_crust counts obt i = snd (snd (snd (cell_fractions top_crust counts obt i)))"


text \<open>
  Inputs for the examples: a grid of two neighbouring cells, a crust with sediment and
  sedimentary rock on the first of them, bundles of zeros and a bundle of stale values;
  and crusts of a single cell.
\<close>

definition pair2 :: grid where
  "pair2 = \<lparr>arrows = [(0, 1), (1, 0)], neighbor_count = [1, 1]\<rparr>"

definition hill_crust :: crust where
  "hill_crust = \<lparr>sediment = [Fin 100, Fin 0], sedimentary = [Fin 50, Fin 0],
                  metamorphic = [Fin 0, Fin 0], sial = [Fin 0, Fin 0], sima = [Fin 0, Fin 0]\<rparr>"

definition blank2 :: crust where
  "blank2 = \<lparr>sediment = [Fin 0, Fin 0], sedimentary = [Fin 0, Fin 0],
              metamorphic = [Fin 0, Fin 0], sial = [Fin 0, Fin 0], sima = [Fin 0, Fin 0]\<rparr>"

definition stale2 :: crust where
  "stale2 = \<lparr>sediment = [NaN, Fin 7], sedimentary = [Fin 3, PInf],
              metamorphic = [Fin (- 1), Fin 1], sial = [Fin 2, Fin 2], sima = [Fin 9, Fin 9]\<rparr>"

definition cell1 :: crust where
  "cell1 = \<lparr>sediment = [Fin 1], sedimentary = [Fin 2],
             metamorphic = [Fin 0], sial = [Fin 0], sima = [Fin 0]\<rparr>"

definition heap1 :: crust where
  "heap1 = \<lparr>sediment = [Fin 5], sedimentary = [Fin 0],
             metamorphic = [Fin 0], sial = [Fin 0], sima = [Fin 0]\<rparr>"

definition blank1 :: crust where
  "blank1 = \<lparr>sediment = [Fin 0], sedimentary = [Fin 0],
              metamorphic = [Fin 0], sial = [Fin 0], sima = [Fin 0]\<rparr>"

text \<open>
  The withdrawal rule as the specification words it, for comparison with \<open>withdraw\<close>:
  the fraction is \<open>clamp(reservoir_quantity / remaining_flux_candidate, 0, 1)\<close> and the
  remaining flux candidate is then "reduced by
  \<open>remaining_flux_candidate * (1 - fraction)\<close>".
\<close>

definition spec_withdraw :: "jsnum \<Rightarrow> jsnum \<Rightarrow> jsnum \<Rightarrow> jsnum \<times> jsnum" where
  "spec_withdraw quantity remaining count =
     (let fraction = clamp01 (jdiv quantity remaining)
      in (jor0 (jdiv fraction count),
          jsub remaining (jmul remaining (jsub (Fin 1) fraction))))"

definition spec_cell_fractions ::
  "crust \<Rightarrow> nat list \<Rightarrow> raster \<Rightarrow> nat \<Rightarrow> jsnum \<times> jsnum \<times> jsnum \<times> jsnum" where
  "spec_cell_fractions top_crust counts outbound_height_transfer i =
     (let o0 = raster_get outbound_height_transfer i;
          (f1, o1) = spec_withdraw (raster_get (sediment top_crust) i) o0 (count_get counts i);
          (f2, o2) = spec_withdraw (raster_get (sedimentary top_crust) i) o1 (count_get counts i);
          (f3, o3) = spec_withdraw (raster_get (metamorphic top_crust) i) o2 (count_get counts i);
          (f4, o4) = spec_withdraw (raster_get (sial top_crust) i) o3 (count_get counts i)
      in (f1, f2, f3, f4))"

section \<open>Asthenosphere pressure: get_asthenosphere_pressure\<close>

text \<open>
  get_asthenosphere_pressure writes into rasters its caller may hold under other names, so
  here the rasters live in a store and the function takes and returns addresses.  A store
  is the list of the rasters allocated so far and an address is an index into it;
  \<open>Float32Raster(grid)\<close> allocates a raster of zeros at the end of the store.
\<close>

type_synonym store = "raster list"

definition Float32Raster :: "nat \<Rightarrow> store \<Rightarrow> nat \<times> store" where
  "Float32Raster n st = (length st, st @ [replicate n (Fin 0)])"

text \<open>\<open>r = r || Float32Raster(density.grid)\<close>\<close>

definition or_Float32Raster :: "nat option \<Rightarrow> nat \<Rightarrow> store \<Rightarrow> nat \<times> store" where
  "or_Float32Raster r n st = (case r of Some a \<Rightarrow> (a, st) | None \<Rightarrow> Float32Raster n st)"

text \<open>
  Modelled from the spec: \<open>Float32Raster.copy\<close> is not part of the sources.  Smoothing
  starts from "an initial copy of density": the copy overwrites the entries of the target
  with those of the source.
\<close>

definition Float32Raster_copy :: "nat \<Rightarrow> nat \<Rightarrow> store \<Rightarrow> store" where
  "Float32Raster_copy src dst st =
     st[dst := take (length (st ! dst)) (st ! src) @ drop (length (st ! src)) (st ! dst)]"

text \<open>
  Modelled from the spec: \<open>ScalarField.diffusion_by_constant\<close> is not part of the
  sources.  A pass is "blending every cell's value with its neighbors' average,
  proportionally to a fixed diffusion constant": the new value of a cell is its value plus
  the constant times the difference between the average over its neighbours and its value.
  The difference is left in the scratch raster and the blend is written to the result
  raster, which may be the input raster.
\<close>

definition neighbor_average :: "grid \<Rightarrow> raster \<Rightarrow> nat \<Rightarrow> jsnum" where
  "neighbor_average g field i =
     jdiv (fold (\<lambda>arrow s. if fst arrow = i then jadd s (raster_get field (snd arrow)) else s)
                (arrows g) (Fin 0))
          (count_get (neighbor_count g) i)"

definition diffusion_by_constant ::
  "grid \<Rightarrow> nat \<Rightarrow> jsnum \<Rightarrow> nat \<Rightarrow> nat \<Rightarrow> store \<Rightarrow> store" where
  "diffusion_by_constant g field constant result scratch st =
     (let f = st ! field;
          laplacian = map (\<lambda>i. jsub (neighbor_average g f i) (raster_get f i)) [0..<length f];
          blend = map (\<lambda>i. jadd (raster_get f i) (jmul constant (raster_get laplacian i)))
                      [0..<length f]
      in st[scratch := laplacian, result := blend])"

definition smoothing_iterations :: nat where
  "smoothing_iterations = 15"

definition get_asthenosphere_pressure ::
  "grid \<Rightarrow> nat \<Rightarrow> nat option \<Rightarrow> nat option \<Rightarrow> store \<Rightarrow> nat \<times> store" where
  "get_asthenosphere_pressure g density pressure scratch st =
     (let (pressure, st1) = or_Float32Raster pressure (length (st ! density)) st;
          (scratch, st2) = or_Float32Raster scratch (length (st ! density)) st1;
          st3 = Float32Raster_copy density pressure st2;
          st4 = fold (\<lambda>i. diffusion_by_constant g pressure (Fin 1) pressure scratch)
                     [0..<smoothing_iterations] st3
      in (pressure, st4))"



text \<open>A chain of three cells, for the examples.\<close>

definition chain3 :: grid where
  "chain3 = \<lparr>arrows = [(0, 1), (1, 0), (1, 2), (2, 1)], neighbor_count = [1, 2, 1]\<rparr>"


section \<open>Plate map: get_plate_map\<close>

text \<open>
  The label field and the masks are rasters of bytes.  \<open>VectorImageAnalysis.image_segmentation\<close>,
  \<open>Uint8Dataset.unique\<close>, \<open>BinaryMorphology.dilation\<close> and \<open>BinaryMorphology.closing\<close> are
  not part of the sources and get_plate_map takes them as parameters: what is proved of
  it holds whatever they compute.
\<close>

type_synonym u8raster = "8 word list"

text \<open>
  Modelled from the spec: \<open>Uint8Field.eq_scalar\<close>, \<open>Uint8Field.ne_scalar\<close>,
  \<open>BinaryMorphology.difference\<close> and \<open>Uint8RasterGraphics.fill_into_selection\<close> are not
  part of the sources.  They are the "field-to-field comparison producing boolean masks"
  (\<open>segment = (labels == id)\<close>), the set difference of two masks, and the write of a
  value into the cells of a mask ("write the cleaned mask back into the shared label field
  under id").  A mask holds 1 in its cells and 0 elsewhere.
\<close>

definition eq_scalar :: "u8raster \<Rightarrow> 8 word \<Rightarrow> u8raster" where
  "eq_scalar field scalar = map (\<lambda>x. if x = scalar then 1 else 0) field"

definition ne_scalar :: "u8raster \<Rightarrow> 8 word \<Rightarrow> u8raster" where
  "ne_scalar field scalar = map (\<lambda>x. if x \<noteq> scalar then 1 else 0) field"

definition in_mask :: "u8raster \<Rightarrow> nat \<Rightarrow> bool" where
  "in_mask selection i = (i < length selection \<and> selection ! i = 1)"

definition difference :: "u8raster \<Rightarrow> u8raster \<Rightarrow> u8raster" where
  "difference field1 field2 =
     map (\<lambda>i. if in_mask field1 i \<and> \<not> in_mask field2 i then 1 else 0) [0..<length field1]"

definition fill_into_selection :: "u8raster \<Rightarrow> 8 word \<Rightarrow> u8raster \<Rightarrow> u8raster" where
  "fill_into_selection raster fill selection =
     map (\<lambda>i. if in_mask selection i then fill else raster ! i) [0..<length raster]"

text \<open>One round of the loop of get_plate_map, for one plate id.\<close>

definition plate_step ::
  "(u8raster \<Rightarrow> nat \<Rightarrow> u8raster) \<Rightarrow> (u8raster \<Rightarrow> nat \<Rightarrow> u8raster) \<Rightarrow> 8 word \<Rightarrow> u8raster
     \<Rightarrow> u8raster" where
  "plate_step dilation closing plate_id segments =
     (let segment = eq_scalar segments plate_id;
          is_empty = eq_scalar segments 0;
          is_occupied = ne_scalar segments plate_id;
          is_occupied = difference is_occupied is_empty;
          segment = dilation segment 5;
          segment = closing segment 5;
          segment = difference segment is_occupied
      in fill_into_selection segments plate_id segment)"

definition get_plate_map ::
  "('v list \<Rightarrow> nat \<Rightarrow> nat \<Rightarrow> u8raster \<Rightarrow> u8raster) \<Rightarrow> (u8raster \<Rightarrow> 8 word list)
     \<Rightarrow> (u8raster \<Rightarrow> nat \<Rightarrow> u8raster) \<Rightarrow> (u8raster \<Rightarrow> nat \<Rightarrow> u8raster)
     \<Rightarrow> 'v list \<Rightarrow> nat \<Rightarrow> nat \<Rightarrow> u8raster option \<Rightarrow> u8raster" where
  "get_plate_map image_segmentation unique dilation closing
       vector_field segment_num min_segment_size segments =
     (let segments0 = (case segments of Some s \<Rightarrow> s
                       | None \<Rightarrow> replicate (length vector_field) 0);
          segments1 = image_segmentation vector_field segment_num min_segment_size segments0;
          plate_ids = unique segments1
      in fold (plate_step dilation closing) plate_ids segments1)"

section \<open>Loops that write one cell per round\<close>

lemma length_fold_update:
  "length (fold (\<lambda>i xs. xs[i := g i]) is xs) = length xs"
  by (induction "is" arbitrary: xs) simp_all

lemma fold_update_outside:
  "j \<notin> set is \<Longrightarrow> fold (\<lambda>i xs. xs[i := g i]) is xs ! j = xs ! j"
  by (induction "is" arbitrary: xs) simp_all

lemma fold_update_upt:
  "j < n \<Longrightarrow> j < length xs \<Longrightarrow> fold (\<lambda>i xs. xs[i := g i]) [0..<n] xs ! j = g j"
proof (induction n arbitrary: j)
  case 0
  then show ?case by simp
next
  case (Suc n)
  show ?case
  proof (cases "j = n")
    case True
    with Suc.prems show ?thesis by (simp add: length_fold_update)
  next
    case False
    with Suc.prems have "j < n" by simp
    with Suc show ?thesis by simp
  qed
qed

section \<open>Isostasy, proved\<close>

text \<open>
  C6.  With a positive mantle density and finite thickness and density rasters over the
  cells of the displacement raster, get_displacement writes
  \<open>thickness[i] * (1 - density[i] / mantle_density)\<close> into every cell \<open>i\<close> of the
  displacement raster, whatever that raster held before, and keeps its length.
\<close>

theorem get_displacement_formula:
  assumes "0 < m"
    and "length ts = length displacement"
    and "length ds = length displacement"
  shows "length (get_displacement (map Fin ts) (map Fin ds) (Fin m) displacement)
           = length displacement
         \<and> (\<forall>i < length displacement.
              get_displacement (map Fin ts) (map Fin ds) (Fin m) displacement ! i
                = Fin (ts ! i * (1 - ds ! i / m)))"
proof (intro conjI allI impI)
  show "length (get_displacement (map Fin ts) (map Fin ds) (Fin m) displacement)
          = length displacement"
    by (simp add: get_displacement_def Let_def length_fold_update)
next
  fix i
  assume i: "i < length displacement"
  let ?g = "\<lambda>i. jsub (raster_get (map Fin ts) i)
              (jmul (jmul (raster_get (map Fin ts) i) (raster_get (map Fin ds) i))
                 (jdiv (Fin 1) (Fin m)))"
  have "get_displacement (map Fin ts) (map Fin ds) (Fin m) displacement ! i = ?g i"
    unfolding get_displacement_def Let_def using i by (rule fold_update_upt [OF i])
  also have "?g i = Fin (ts ! i * (1 - ds ! i / m))"
    using assms i by (simp add: raster_get_def jsub_def algebra_simps)
  finally show "get_displacement (map Fin ts) (map Fin ds) (Fin m) displacement ! i
                  = Fin (ts ! i * (1 - ds ! i / m))" .
qed

theorem get_displacement_formula_witness:
  "((0::real) < 4 \<and> length [10, 4::real] = length [NaN, Fin 7]
      \<and> length [2, 6::real] = length [NaN, Fin 7] \<and> (1::nat) < length [NaN, Fin 7])
   \<and> get_displacement (map Fin [10, 4]) (map Fin [2, 6]) (Fin 4) [NaN, Fin 7] ! 1
       = Fin ([10, 4] ! 1 * (1 - [2, 6] ! 1 / 4))"
proof
  show h: "(0::real) < 4 \<and> length [10, 4::real] = length [NaN, Fin 7]
             \<and> length [2, 6::real] = length [NaN, Fin 7] \<and> (1::nat) < length [NaN, Fin 7]"
    by simp
  have "\<forall>i < length [NaN, Fin 7].
          get_displacement (map Fin [10, 4]) (map Fin [2, 6]) (Fin 4) [NaN, Fin 7] ! i
            = Fin ([10, 4] ! i * (1 - [2, 6] ! i / 4))"
    using h get_displacement_formula [of 4 "[10, 4]" "[NaN, Fin 7]" "[2, 6]"] by blast
  with h show "get_displacement (map Fin [10, 4]) (map Fin [2, 6]) (Fin 4) [NaN, Fin 7] ! 1
                 = Fin ([10, 4] ! 1 * (1 - [2, 6] ! 1 / 4))"
    by blast
qed

text \<open>The same call, computed: thicknesses 10 and 4, densities 2 and 6, mantle density 4.\<close>

lemma get_displacement_example:
  "get_displacement [Fin 10, Fin 4] [Fin 2, Fin 6] (Fin 4) [NaN, Fin 7] = [Fin 5, Fin (- 2)]"
  by code_simp

section \<open>Plate map, proved\<close>

lemma length_plate_step: "length (plate_step dilation closing q segments) = length segments"
  by (simp add: plate_step_def fill_into_selection_def Let_def)

lemma eq_scalar_mask:
  "in_mask (eq_scalar segments q) i = (i < length segments \<and> segments ! i = q)"
  by (auto simp add: in_mask_def eq_scalar_def split: if_splits)

lemma ne_scalar_mask:
  "in_mask (ne_scalar segments q) i = (i < length segments \<and> segments ! i \<noteq> q)"
  by (auto simp add: in_mask_def ne_scalar_def split: if_splits)

lemma difference_mask:
  "in_mask (difference a b) i = (in_mask a i \<and> \<not> in_mask b i)"
  by (auto simp add: difference_def in_mask_def split: if_splits)

text \<open>
  The label of a cell after the round of plate id \<open>q\<close>: the cell takes \<open>q\<close> when the
  dilated and closed mask of \<open>q\<close> covers it and it was empty or already \<open>q\<close>.
\<close>

lemma plate_step_nth:
  assumes "i < length segments"
  shows "plate_step dilation closing q segments ! i
           = (if in_mask (closing (dilation (eq_scalar segments q) 5) 5) i
                 \<and> (segments ! i = q \<or> segments ! i = 0)
              then q else segments ! i)"
  using assms
  by (auto simp add: plate_step_def Let_def fill_into_selection_def difference_mask
        eq_scalar_mask ne_scalar_mask)

text \<open>
  C4.  In the round of get_plate_map for a plate id \<open>q\<close>, a cell whose label is neither 0
  nor \<open>q\<close> keeps its label, whatever dilation and closing compute; a cell whose label the
  round changes was labelled 0 and is labelled \<open>q\<close> afterwards.
\<close>

theorem plate_step_keeps_other_plates:
  assumes "i < length segments"
  shows "(segments ! i \<noteq> 0 \<and> segments ! i \<noteq> q
            \<longrightarrow> plate_step dilation closing q segments ! i = segments ! i)
         \<and> (plate_step dilation closing q segments ! i \<noteq> segments ! i
            \<longrightarrow> segments ! i = 0 \<and> plate_step dilation closing q segments ! i = q)"
  using assms by (auto simp add: plate_step_nth)

text \<open>
  A round for plate 1 on the labels 1, 0, 2, 0, with a dilation that covers every cell:
  the empty cells are taken and the cell of plate 2 is not.
\<close>

theorem plate_step_keeps_other_plates_witness:
  "plate_step (\<lambda>m r. replicate (length m) 1) (\<lambda>m r. m) 1 [1, 0, 2, 0] = [1, 1, 2, 1]
   \<and> ((2::nat) < length [1, 0, 2, 0::8 word]
        \<and> [1, 0, 2, 0::8 word] ! 2 \<noteq> 0 \<and> [1, 0, 2, 0::8 word] ! 2 \<noteq> 1)
   \<and> plate_step (\<lambda>m r. replicate (length m) 1) (\<lambda>m r. m) 1 [1, 0, 2, 0] ! 2
       = [1, 0, 2, 0] ! 2"
proof (intro conjI)
  show "plate_step (\<lambda>m r. replicate (length m) 1) (\<lambda>m r. m) 1 [1, 0, 2, 0] = [1, 1, 2, 1]"
    by code_simp
  show "plate_step (\<lambda>m r. replicate (length m) 1) (\<lambda>m r. m) 1 [1, 0, 2, 0] ! 2
          = [1, 0, 2, 0] ! 2"
    using plate_step_keeps_other_plates
            [of 2 "[1, 0, 2, 0]" 1 "\<lambda>m r. replicate (length m) 1" "\<lambda>m r. m"]
    by simp
qed simp_all

text \<open>Over the whole loop, for any list of plate ids: a labelled cell keeps its label.\<close>

lemma fold_plate_step_nonzero:
  "i < length segments \<Longrightarrow> segments ! i \<noteq> 0 \<Longrightarrow>
   fold (plate_step dilation closing) ids segments ! i = segments ! i"
proof (induction ids arbitrary: segments)
  case Nil
  then show ?case by simp
next
  case (Cons q ids)
  have "plate_step dilation closing q segments ! i = segments ! i"
    using Cons.prems by (simp add: plate_step_nth)
  with Cons show ?case by (simp add: length_plate_step)
qed

text \<open>
  So get_plate_map returns, in every cell that the segmentation labelled, the label the
  segmentation gave it: the morphology only hands out empty cells.
\<close>

lemma get_plate_map_keeps_labels:
  assumes "i < length (image_segmentation vector_field segment_num min_segment_size
                         (case segments of Some s \<Rightarrow> s
                          | None \<Rightarrow> replicate (length vector_field) 0))"
    and "image_segmentation vector_field segment_num min_segment_size
           (case segments of Some s \<Rightarrow> s | None \<Rightarrow> replicate (length vector_field) 0) ! i \<noteq> 0"
  shows "get_plate_map image_segmentation unique dilation closing
           vector_field segment_num min_segment_size segments ! i
         = image_segmentation vector_field segment_num min_segment_size
             (case segments of Some s \<Rightarrow> s | None \<Rightarrow> replicate (length vector_field) 0) ! i"
  using assms by (simp add: get_plate_map_def Let_def fold_plate_step_nonzero)

section \<open>Asthenosphere pressure, proved\<close>

subsection \<open>What the call leaves alone\<close>



lemma or_Float32Raster_frame:
  assumes "or_Float32Raster r n st = (a, st')" "d < length st" "r \<noteq> Some d"
  shows "a \<noteq> d \<and> st' ! d = st ! d \<and> d < length st'"
  using assms
  by (auto simp add: or_Float32Raster_def Float32Raster_def nth_append split: option.splits)

lemma Float32Raster_copy_frame:
  "dst \<noteq> d \<Longrightarrow> Float32Raster_copy src dst st ! d = st ! d"
  by (simp add: Float32Raster_copy_def)

lemma length_Float32Raster_copy: "length (Float32Raster_copy src dst st) = length st"
  by (simp add: Float32Raster_copy_def)

lemma diffusion_by_constant_frame:
  "result \<noteq> d \<Longrightarrow> scratch \<noteq> d \<Longrightarrow>
   diffusion_by_constant g field constant result scratch st ! d = st ! d"
  by (simp add: diffusion_by_constant_def Let_def)


lemma fold_diffusion_frame:
  "result \<noteq> d \<Longrightarrow> scratch \<noteq> d \<Longrightarrow>
   fold (\<lambda>i. diffusion_by_constant g field constant result scratch) is st ! d = st ! d"
  by (induction "is" arbitrary: st) (simp_all add: diffusion_by_constant_frame)

text \<open>
  C10.  When the pressure and scratch rasters handed to get_asthenosphere_pressure are not
  the density raster (or are left out, and allocated by the call), the density raster
  holds after the call what it held before.
\<close>

theorem get_asthenosphere_pressure_keeps_density:
  assumes "density < length st"
    and "pressure \<noteq> Some density"
    and "scratch \<noteq> Some density"
  shows "snd (get_asthenosphere_pressure g density pressure scratch st) ! density = st ! density"
proof -
  obtain p st1 where p: "or_Float32Raster pressure (length (st ! density)) st = (p, st1)"
    by (cases "or_Float32Raster pressure (length (st ! density)) st")
  obtain s st2 where s: "or_Float32Raster scratch (length (st ! density)) st1 = (s, st2)"
    by (cases "or_Float32Raster scratch (length (st ! density)) st1")
  from or_Float32Raster_frame [OF p assms(1,2)]
  have p1: "p \<noteq> density" "st1 ! density = st ! density" "density < length st1" by simp_all
  from or_Float32Raster_frame [OF s p1(3) assms(3)]
  have s1: "s \<noteq> density" "st2 ! density = st1 ! density" by simp_all
  have "snd (get_asthenosphere_pressure g density pressure scratch st) ! density
          = fold (\<lambda>i. diffusion_by_constant g p (Fin 1) p s) [0..<smoothing_iterations]
              (Float32Raster_copy density p st2) ! density"
    by (simp add: get_asthenosphere_pressure_def p s)
  also have "\<dots> = Float32Raster_copy density p st2 ! density"
    using p1(1) s1(1) by (rule fold_diffusion_frame)
  also have "\<dots> = st ! density"
    using p1 s1 by (simp add: Float32Raster_copy_frame)
  finally show ?thesis .
qed

theorem get_asthenosphere_pressure_keeps_density_witness:
  "((0::nat) < length [[Fin 1, Fin 5, Fin 3], [NaN, NaN, NaN]]
      \<and> Some (1::nat) \<noteq> Some 0 \<and> (None :: nat option) \<noteq> Some 0)
   \<and> snd (get_asthenosphere_pressure chain3 0 (Some 1) None
             [[Fin 1, Fin 5, Fin 3], [NaN, NaN, NaN]]) ! 0
       = [[Fin 1, Fin 5, Fin 3], [NaN, NaN, NaN]] ! 0"
proof
  show "snd (get_asthenosphere_pressure chain3 0 (Some 1) None
               [[Fin 1, Fin 5, Fin 3], [NaN, NaN, NaN]]) ! 0
          = [[Fin 1, Fin 5, Fin 3], [NaN, NaN, NaN]] ! 0"
    using get_asthenosphere_pressure_keeps_density
            [of 0 "[[Fin 1, Fin 5, Fin 3], [NaN, NaN, NaN]]" "Some 1" None chain3]
    by simp
qed simp

subsection \<open>The range of the smoothed field\<close>




















section \<open>Erosion, proved\<close>

subsection \<open>Numbers\<close>

lemma is_Fin_iff: "is_Fin x \<longleftrightarrow> (\<exists>r. x = Fin r)"
  by (cases x) simp_all

lemma finite_raster_iff: "finite_raster xs \<longleftrightarrow> (\<exists>rs. xs = map Fin rs)"
proof
  assume "finite_raster xs"
  then have "xs = map Fin (map the_Fin xs)"
    by (induction xs) (auto simp add: finite_raster_def is_Fin_iff)
  then show "\<exists>rs. xs = map Fin rs" ..
next
  assume "\<exists>rs. xs = map Fin rs"
  then show "finite_raster xs" by (auto simp add: finite_raster_def list_all_iff)
qed

lemma clamp01_cases: "clamp01 x = NaN \<or> (\<exists>r. clamp01 x = Fin r \<and> 0 \<le> r \<and> r \<le> 1)"
  by (cases x) (auto simp add: clamp01_def jlt_def)

lemma jor0_not_NaN: "jor0 x \<noteq> NaN"
  by (simp add: jor0_def)

lemma stored_fraction_finite:
  assumes "0 < k"
  shows "\<exists>r. fst (withdraw quantity candidate (Fin (real k))) = Fin r \<and> 0 \<le> r \<and> r \<le> 1"
proof -
  from clamp01_cases [of "jdiv quantity candidate"]
  show ?thesis
  proof
    assume "clamp01 (jdiv quantity candidate) = NaN"
    then show ?thesis by (simp add: withdraw_def jor0_def Let_def)
  next
    assume "\<exists>r. clamp01 (jdiv quantity candidate) = Fin r \<and> 0 \<le> r \<and> r \<le> 1"
    then obtain r where r: "clamp01 (jdiv quantity candidate) = Fin r" "0 \<le> r" "r \<le> 1"
      by blast
    have "r / real k \<le> 1" "0 \<le> r / real k"
      using r assms by (simp_all add: divide_le_eq)
    then show ?thesis using r assms by (auto simp add: withdraw_def jor0_def Let_def)
  qed
qed

subsection \<open>The fraction pass, field by field\<close>

lemma fraction_fold_fields:
  "sediment (fold (\<lambda>i s. case cell_fractions top_crust counts obt i of
                    (f1, f2, f3, f4) \<Rightarrow>
                      s\<lparr>sediment := (sediment s)[i := f1],
                        sedimentary := (sedimentary s)[i := f2],
                        metamorphic := (metamorphic s)[i := f3],
                        sial := (sial s)[i := f4]\<rparr>) is s)
     = fold (\<lambda>i xs. xs[i := fraction1 top_crust counts obt i]) is (sediment s)
   \<and> sedimentary (fold (\<lambda>i s. case cell_fractions top_crust counts obt i of
                    (f1, f2, f3, f4) \<Rightarrow>
                      s\<lparr>sediment := (sediment s)[i := f1],
                        sedimentary := (sedimentary s)[i := f2],
                        metamorphic := (metamorphic s)[i := f3],
                        sial := (sial s)[i := f4]\<rparr>) is s)
     = fold (\<lambda>i xs. xs[i := fraction2 top_crust counts obt i]) is (sedimentary s)
   \<and> metamorphic (fold (\<lambda>i s. case cell_fractions top_crust counts obt i of
                    (f1, f2, f3, f4) \<Rightarrow>
                      s\<lparr>sediment := (sediment s)[i := f1],
                        sedimentary := (sedimentary s)[i := f2],
                        metamorphic := (metamorphic s)[i := f3],
                        sial := (sial s)[i := f4]\<rparr>) is s)
     = fold (\<lambda>i xs. xs[i := fraction3 top_crust counts obt i]) is (metamorphic s)
   \<and> sial (fold (\<lambda>i s. case cell_fractions top_crust counts obt i of
                    (f1, f2, f3, f4) \<Rightarrow>
                      s\<lparr>sediment := (sediment s)[i := f1],
                        sedimentary := (sedimentary s)[i := f2],
                        metamorphic := (metamorphic s)[i := f3],
                        sial := (sial s)[i := f4]\<rparr>) is s)
     = fold (\<lambda>i xs. xs[i := fraction4 top_crust counts obt i]) is (sial s)"
  by (induction "is" arbitrary: s)
     (simp_all add: fraction1_def fraction2_def fraction3_def fraction4_def split: prod.splits)

lemma fraction_pass_nth:
  assumes "i < length obt" "crust_over scratch (length obt)"
  shows "sediment (fraction_pass top_crust counts obt scratch) ! i = fraction1 top_crust counts obt i"
    and "sedimentary (fraction_pass top_crust counts obt scratch) ! i = fraction2 top_crust counts obt i"
    and "metamorphic (fraction_pass top_crust counts obt scratch) ! i = fraction3 top_crust counts obt i"
    and "sial (fraction_pass top_crust counts obt scratch) ! i = fraction4 top_crust counts obt i"
  using assms
  by (simp_all add: fraction_pass_def fraction_fold_fields fold_update_upt crust_over_def)

lemma fraction_pass_length:
  "crust_over (fraction_pass top_crust counts obt scratch) n = crust_over scratch n"
  by (simp add: fraction_pass_def fraction_fold_fields length_fold_update crust_over_def)


subsection \<open>The transfer pass, field by field\<close>

lemma transfer_pass_fields:
  "sediment (transfer_pass arrs wh ts fr d)
     = fold (\<lambda>arrow. move (jmul (outbound wh ts arrow) (raster_get (sediment fr) (fst arrow))) arrow)
            arrs (sediment d)"
  "sedimentary (transfer_pass arrs wh ts fr d)
     = fold (\<lambda>arrow. move (jmul (outbound wh ts arrow) (raster_get (sedimentary fr) (fst arrow))) arrow)
            arrs (sedimentary d)"
  "metamorphic (transfer_pass arrs wh ts fr d)
     = fold (\<lambda>arrow. move (jmul (outbound wh ts arrow) (raster_get (metamorphic fr) (fst arrow))) arrow)
            arrs (metamorphic d)"
  "sial (transfer_pass arrs wh ts fr d)
     = fold (\<lambda>arrow. move (jmul (outbound wh ts arrow) (raster_get (sial fr) (fst arrow))) arrow)
            arrs (sial d)"
  "sima (transfer_pass arrs wh ts fr d) = sima d"
  by (induction arrs arbitrary: d) (simp_all add: transfer_pass_def Let_def)

lemma sum_list_update_real:
  fixes xs :: "real list"
  shows "i < length xs \<Longrightarrow> sum_list (xs[i := v]) = sum_list xs - xs ! i + v"
  by (induction xs arbitrary: i) (auto split: nat.splits)

lemma update_add_finite:
  "j < length r \<Longrightarrow>
   (map Fin r)[j := jadd (raster_get (map Fin r) j) (Fin t)] = map Fin (r[j := r ! j + t])"
  by (simp add: raster_get_def map_update)

lemma update_sub_finite:
  "j < length r \<Longrightarrow>
   (map Fin r)[j := jsub (raster_get (map Fin r) j) (Fin t)] = map Fin (r[j := r ! j - t])"
  by (simp add: raster_get_def jsub_def map_update)

lemma move_finite:
  assumes "fst a < length rs" "snd a < length rs"
  shows "\<exists>rs'. move (Fin t) a (map Fin rs) = map Fin rs'
               \<and> length rs' = length rs \<and> sum_list rs' = sum_list rs"
proof -
  let ?r1 = "rs[fst a := rs ! fst a - t]"
  let ?r2 = "?r1[snd a := ?r1 ! snd a + t]"
  have "(map Fin rs)[fst a := jsub (raster_get (map Fin rs) (fst a)) (Fin t)] = map Fin ?r1"
    using assms(1) by (rule update_sub_finite)
  moreover have "(map Fin ?r1)[snd a := jadd (raster_get (map Fin ?r1) (snd a)) (Fin t)]
                   = map Fin ?r2"
    using assms(2) by (intro update_add_finite) simp
  ultimately have "move (Fin t) a (map Fin rs) = map Fin ?r2"
    by (simp add: move_def Let_def)
  moreover have "sum_list ?r2 = sum_list rs"
    using assms by (simp add: sum_list_update_real)
  ultimately show ?thesis by (intro exI [of _ ?r2]) simp
qed

lemma fold_move_finite:
  assumes "\<forall>a \<in> set arrs. is_Fin (t a) \<and> fst a < length rs \<and> snd a < length rs"
  shows "\<exists>rs'. fold (\<lambda>a. move (t a) a) arrs (map Fin rs) = map Fin rs'
               \<and> length rs' = length rs \<and> sum_list rs' = sum_list rs"
  using assms
proof (induction arrs arbitrary: rs)
  case Nil
  show ?case by (rule exI [of _ rs]) simp
next
  case (Cons a arrs)
  from Cons.prems obtain x where x: "t a = Fin x"
    by (auto simp add: is_Fin_iff)
  from Cons.prems have "fst a < length rs" "snd a < length rs" by simp_all
  from move_finite [OF this, of x] obtain r1 where
    r1: "move (Fin x) a (map Fin rs) = map Fin r1" "length r1 = length rs"
        "sum_list r1 = sum_list rs"
    by blast
  have "\<forall>a \<in> set arrs. is_Fin (t a) \<and> fst a < length r1 \<and> snd a < length r1"
    using Cons.prems r1(2) by simp
  from Cons.IH [OF this] show ?case using x r1 by simp
qed

lemma jsum_fold_finite:
  "fold (\<lambda>x s. jadd s x) (map Fin rs) (Fin a) = Fin (a + sum_list rs)"
  by (induction rs arbitrary: a) (simp_all add: add.assoc)

lemma jsum_finite: "jsum (map Fin rs) = Fin (sum_list rs)"
  by (simp add: jsum_def jsum_fold_finite)

lemma outbound_finite:
  assumes "fst a < length ws" "snd a < length ws"
  shows "is_Fin (outbound (map Fin ws) (Fin dt) a)"
  using assms
  by (simp add: outbound_def raster_get_def jsub_def precipitation_def erosiveFactor_def Let_def)

lemma water_height_finite:
  "max_scalar (sub_scalar (map Fin ds) (Fin sl)) (Fin 0)
     = map Fin (map (\<lambda>d. if 0 < d - sl then d - sl else 0) ds)"
  by (simp add: max_scalar_def sub_scalar_def jsub_def)

lemma length_flux_pass: "length (flux_pass arrs wh ts obt) = length obt"
  unfolding flux_pass_def by (induction arrs arbitrary: obt) simp_all

text \<open>Every cell an arrow leaves has a neighbour, so its stored fractions are finite.\<close>

lemma valid_grid_count:
  assumes "valid_grid g n" "a \<in> set (arrows g)"
  shows "fst a < n \<and> snd a < n \<and> count_get (neighbor_count g) (fst a) = Fin (real (neighbor_count g ! fst a))
         \<and> 0 < neighbor_count g ! fst a"
proof -
  have a: "fst a < n" "snd a < n" "length (neighbor_count g) = n"
    using assms by (auto simp add: valid_grid_def)
  have "neighbor_count g ! fst a = length (filter (\<lambda>arrow. fst arrow = fst a) (arrows g))"
    using assms a by (simp add: valid_grid_def)
  moreover have "a \<in> set (filter (\<lambda>arrow. fst arrow = fst a) (arrows g))"
    using assms(2) by simp
  then have "0 < length (filter (\<lambda>arrow. fst arrow = fst a) (arrows g))"
    by (metis length_pos_if_in_set)
  ultimately show ?thesis using a by (simp add: count_get_def)
qed

lemma fractions_finite:
  assumes "count_get counts i = Fin (real k)" "0 < k"
  shows "is_Fin (fraction1 top_crust counts obt i)" "is_Fin (fraction2 top_crust counts obt i)"
        "is_Fin (fraction3 top_crust counts obt i)" "is_Fin (fraction4 top_crust counts obt i)"
proof -
  note fin = stored_fraction_finite [OF assms(2)]
  obtain f1 o1 where w1: "withdraw (raster_get (sediment top_crust) i) (raster_get obt i) (Fin (real k)) = (f1, o1)"
    by (cases "withdraw (raster_get (sediment top_crust) i) (raster_get obt i) (Fin (real k))")
  obtain f2 o2 where w2: "withdraw (raster_get (sedimentary top_crust) i) o1 (Fin (real k)) = (f2, o2)"
    by (cases "withdraw (raster_get (sedimentary top_crust) i) o1 (Fin (real k))")
  obtain f3 o3 where w3: "withdraw (raster_get (metamorphic top_crust) i) o2 (Fin (real k)) = (f3, o3)"
    by (cases "withdraw (raster_get (metamorphic top_crust) i) o2 (Fin (real k))")
  obtain f4 o4 where w4: "withdraw (raster_get (sial top_crust) i) o3 (Fin (real k)) = (f4, o4)"
    by (cases "withdraw (raster_get (sial top_crust) i) o3 (Fin (real k))")
  have c: "cell_fractions top_crust counts obt i = (f1, f2, f3, f4)"
    by (simp add: cell_fractions_def assms(1) w1 w2 w3 w4)
  from fin [of "raster_get (sediment top_crust) i" "raster_get obt i"] w1
  show "is_Fin (fraction1 top_crust counts obt i)" by (auto simp add: fraction1_def c)
  from fin [of "raster_get (sedimentary top_crust) i" o1] w2
  show "is_Fin (fraction2 top_crust counts obt i)" by (auto simp add: fraction2_def c)
  from fin [of "raster_get (metamorphic top_crust) i" o2] w3
  show "is_Fin (fraction3 top_crust counts obt i)" by (auto simp add: fraction3_def c)
  from fin [of "raster_get (sial top_crust) i" o3] w4
  show "is_Fin (fraction4 top_crust counts obt i)" by (auto simp add: fraction4_def c)
qed

lemma raster_get_map_Fin: "i < length rs \<Longrightarrow> raster_get (map Fin rs) i = Fin (rs ! i)"
  by (simp add: raster_get_def)

lemma transfer_field_conserved:
  assumes "\<forall>a \<in> set arrs. fst a < n \<and> snd a < n \<and> is_Fin (raster_get fs (fst a))"
    and "length ws = n"
  shows "\<exists>rs. fold (\<lambda>arrow. move (jmul (outbound (map Fin ws) (Fin dt) arrow)
                                   (raster_get fs (fst arrow))) arrow)
                   arrs (replicate n (Fin 0)) = map Fin rs
              \<and> length rs = n \<and> sum_list rs = 0"
proof -
  let ?t = "\<lambda>arrow. jmul (outbound (map Fin ws) (Fin dt) arrow) (raster_get fs (fst arrow))"
  have "\<forall>a \<in> set arrs. is_Fin (?t a) \<and> fst a < length (replicate n (0::real))
          \<and> snd a < length (replicate n (0::real))"
  proof
    fix a assume a: "a \<in> set arrs"
    with assms have "is_Fin (outbound (map Fin ws) (Fin dt) a)"
      by (intro outbound_finite) simp_all
    moreover have "is_Fin (raster_get fs (fst a))" using assms a by simp
    ultimately have "is_Fin (?t a)" by (auto simp add: is_Fin_iff)
    then show "is_Fin (?t a) \<and> fst a < length (replicate n (0::real))
                 \<and> snd a < length (replicate n (0::real))"
      using assms a by simp
  qed
  from fold_move_finite [OF this] obtain rs where
    rs: "fold (\<lambda>a. move (?t a) a) arrs (map Fin (replicate n 0)) = map Fin rs"
        "length rs = length (replicate n (0::real))"
        "sum_list rs = sum_list (replicate n (0::real))"
    by blast
  have "map Fin (replicate n 0) = replicate n (Fin 0)" by simp
  with rs show ?thesis by (intro exI [of _ rs]) (simp add: sum_list_replicate)
qed

lemma map2_jadd_finite:
  "length a = length b \<Longrightarrow> map2 jadd (map Fin a) (map Fin b) = map Fin (map2 (+) a b)"
  by (induction a b rule: list_induct2) simp_all

lemma sum_list_map2_add:
  fixes a b :: "real list"
  shows "length a = length b \<Longrightarrow> sum_list (map2 (+) a b) = sum_list a + sum_list b"
  by (induction a b rule: list_induct2) simp_all

lemma jsum_apply_delta:
  assumes "finite_raster xs" "length xs = n" "d = map Fin rs" "length rs = n" "sum_list rs = 0"
  shows "jsum (map2 jadd xs d) = jsum xs"
proof -
  from assms(1) obtain a where a: "xs = map Fin a" by (auto simp add: finite_raster_iff)
  with assms have len: "length a = length rs" by simp
  then have "map2 jadd (map Fin a) (map Fin rs) = map Fin (map2 (+) a rs)"
    by (rule map2_jadd_finite)
  then have "jsum (map2 jadd xs d) = Fin (sum_list (map2 (+) a rs))"
    by (simp only: a assms(3) jsum_finite)
  also have "\<dots> = Fin (sum_list a)"
    using len assms(5) by (simp only: sum_list_map2_add) simp
  finally show ?thesis by (simp only: a jsum_finite)
qed

text \<open>
  The shape of a run on admissible inputs: the water heights are finite, and the transfer
  pass starts from zero deltas and multiplies the flux of every arrow by finite fractions.
\<close>

lemma erosion_shape:
  assumes g: "valid_grid g n"
    and dis: "finite_raster displacement" "length displacement = n"
    and sl: "is_Fin sealevel"
    and del: "crust_over crust_delta n" and scr: "crust_over crust_scratch n"
  shows "\<exists>ws fr z.
           length ws = n
           \<and> fst (get_erosion displacement g sealevel timestep top_crust crust_delta crust_scratch)
               = transfer_pass (arrows g) (map Fin ws) timestep fr z
           \<and> sediment z = replicate n (Fin 0) \<and> sedimentary z = replicate n (Fin 0)
           \<and> metamorphic z = replicate n (Fin 0) \<and> sial z = replicate n (Fin 0)
           \<and> (\<forall>a \<in> set (arrows g). fst a < n \<and> snd a < n
                  \<and> is_Fin (raster_get (sediment fr) (fst a))
                  \<and> is_Fin (raster_get (sedimentary fr) (fst a))
                  \<and> is_Fin (raster_get (metamorphic fr) (fst a))
                  \<and> is_Fin (raster_get (sial fr) (fst a)))"
proof -
  obtain ds where ds: "displacement = map Fin ds" using dis(1) by (auto simp add: finite_raster_iff)
  obtain s where s: "sealevel = Fin s" using sl by (auto simp add: is_Fin_iff)
  define ws where "ws = map (\<lambda>d. if 0 < d - s then d - s else 0) ds"
  have wh: "max_scalar (sub_scalar displacement sealevel) (Fin 0) = map Fin ws"
    by (simp add: ds s ws_def water_height_finite)
  have lws: "length ws = n" using dis(2) by (simp add: ws_def ds)
  define obt where "obt = flux_pass (arrows g) (map Fin ws) timestep (replicate n (Fin 0))"
  have lobt: "length obt = n" by (simp add: obt_def length_flux_pass)
  define fr where "fr = fraction_pass top_crust (neighbor_count g) obt crust_scratch"
  have lfr: "crust_over fr n" by (simp add: fr_def fraction_pass_length scr)
  have run: "fst (get_erosion displacement g sealevel timestep top_crust crust_delta crust_scratch)
               = transfer_pass (arrows g) (map Fin ws) timestep fr (Crust_reset crust_delta)"
    by (simp add: get_erosion_def wh dis(2) obt_def fr_def Let_def)
  have zero: "sediment (Crust_reset crust_delta) = replicate n (Fin 0)"
             "sedimentary (Crust_reset crust_delta) = replicate n (Fin 0)"
             "metamorphic (Crust_reset crust_delta) = replicate n (Fin 0)"
             "sial (Crust_reset crust_delta) = replicate n (Fin 0)"
    using del by (simp_all add: Crust_reset_def crust_over_def)
  have fin: "fst a < n \<and> snd a < n
             \<and> is_Fin (raster_get (sediment fr) (fst a))
             \<and> is_Fin (raster_get (sedimentary fr) (fst a))
             \<and> is_Fin (raster_get (metamorphic fr) (fst a))
             \<and> is_Fin (raster_get (sial fr) (fst a))" if "a \<in> set (arrows g)" for a
  proof -
    from valid_grid_count [OF g that]
    have a: "fst a < n" "snd a < n"
      "count_get (neighbor_count g) (fst a) = Fin (real (neighbor_count g ! fst a))"
      "0 < neighbor_count g ! fst a" by simp_all
    have i: "fst a < length obt" using a(1) lobt by simp
    have sc: "crust_over crust_scratch (length obt)" using scr lobt by simp
    note nth = fraction_pass_nth [OF i sc, of top_crust "neighbor_count g", folded fr_def]
    note ff = fractions_finite [OF a(3,4), of top_crust obt]
    show ?thesis
      using a(1,2) lfr nth ff by (simp add: raster_get_def crust_over_def)
  qed
  show ?thesis
    using lws run zero fin by blast
qed

lemma erosion_delta_fields:
  assumes g: "valid_grid g n"
    and dis: "finite_raster displacement" "length displacement = n"
    and sl: "is_Fin sealevel" and dt: "is_Fin timestep"
    and del: "crust_over crust_delta n" and scr: "crust_over crust_scratch n"
    and delta_def:
      "delta = fst (get_erosion displacement g sealevel timestep top_crust crust_delta crust_scratch)"
  shows "\<exists>rs. sediment delta = map Fin rs \<and> length rs = n \<and> sum_list rs = 0"
    and "\<exists>rs. sedimentary delta = map Fin rs \<and> length rs = n \<and> sum_list rs = 0"
    and "\<exists>rs. metamorphic delta = map Fin rs \<and> length rs = n \<and> sum_list rs = 0"
    and "\<exists>rs. sial delta = map Fin rs \<and> length rs = n \<and> sum_list rs = 0"
proof -
  obtain t where t: "timestep = Fin t" using dt by (auto simp add: is_Fin_iff)
  from erosion_shape [OF g dis sl del scr, of timestep top_crust]
  obtain ws fr z where lws: "length ws = n"
    and delta: "delta = transfer_pass (arrows g) (map Fin ws) (Fin t) fr z"
    and zero: "sediment z = replicate n (Fin 0)" "sedimentary z = replicate n (Fin 0)"
              "metamorphic z = replicate n (Fin 0)" "sial z = replicate n (Fin 0)"
    and fin: "\<forall>a \<in> set (arrows g). fst a < n \<and> snd a < n
                  \<and> is_Fin (raster_get (sediment fr) (fst a))
                  \<and> is_Fin (raster_get (sedimentary fr) (fst a))
                  \<and> is_Fin (raster_get (metamorphic fr) (fst a))
                  \<and> is_Fin (raster_get (sial fr) (fst a))"
    unfolding delta_def t by blast
  show "\<exists>rs. sediment delta = map Fin rs \<and> length rs = n \<and> sum_list rs = 0"
    unfolding delta transfer_pass_fields zero
    using fin lws by (intro transfer_field_conserved) simp_all
  show "\<exists>rs. sedimentary delta = map Fin rs \<and> length rs = n \<and> sum_list rs = 0"
    unfolding delta transfer_pass_fields zero
    using fin lws by (intro transfer_field_conserved) simp_all
  show "\<exists>rs. metamorphic delta = map Fin rs \<and> length rs = n \<and> sum_list rs = 0"
    unfolding delta transfer_pass_fields zero
    using fin lws by (intro transfer_field_conserved) simp_all
  show "\<exists>rs. sial delta = map Fin rs \<and> length rs = n \<and> sum_list rs = 0"
    unfolding delta transfer_pass_fields zero
    using fin lws by (intro transfer_field_conserved) simp_all
qed

subsection \<open>Conservation of mass\<close>

lemma pair2_admissible:
  "valid_grid pair2 2" "finite_raster [Fin 1000, Fin 0]" "length [Fin 1000, Fin 0] = 2"
  "is_Fin (Fin 0)" "is_Fin (Fin 1)" "crust_over hill_crust 2" "finite_crust hill_crust"
  "crust_over stale2 2" "crust_over blank2 2"
  by code_simp+

text \<open>
  C1.  On a valid grid, for finite displacement, sea level and time step and bundles with
  one entry per cell, each of the four delta rasters that get_erosion produces sums to
  zero, and the total of the four reservoirs of a finite crust is the same before and
  after the deltas are added to it.
\<close>

theorem erosion_conserves_mass:
  assumes g: "valid_grid g n"
    and dis: "finite_raster displacement" "length displacement = n"
    and sl: "is_Fin sealevel" and dt: "is_Fin timestep"
    and top: "crust_over top_crust n" "finite_crust top_crust"
    and del: "crust_over crust_delta n" and scr: "crust_over crust_scratch n"
  shows "let delta = fst (get_erosion displacement g sealevel timestep
                            top_crust crust_delta crust_scratch)
         in jsum (sediment delta) = Fin 0 \<and> jsum (sedimentary delta) = Fin 0
            \<and> jsum (metamorphic delta) = Fin 0 \<and> jsum (sial delta) = Fin 0
            \<and> crust_total (apply_delta top_crust delta) = crust_total top_crust"
proof -
  define delta where
    "delta = fst (get_erosion displacement g sealevel timestep top_crust crust_delta crust_scratch)"
  note f = erosion_delta_fields [OF g dis sl dt del scr delta_def]
  from f(1) obtain r1 where r1: "sediment delta = map Fin r1" "length r1 = n" "sum_list r1 = 0"
    by blast
  from f(2) obtain r2 where r2: "sedimentary delta = map Fin r2" "length r2 = n" "sum_list r2 = 0"
    by blast
  from f(3) obtain r3 where r3: "metamorphic delta = map Fin r3" "length r3 = n" "sum_list r3 = 0"
    by blast
  from f(4) obtain r4 where r4: "sial delta = map Fin r4" "length r4 = n" "sum_list r4 = 0"
    by blast
  have sums: "jsum (sediment delta) = Fin 0" "jsum (sedimentary delta) = Fin 0"
    "jsum (metamorphic delta) = Fin 0" "jsum (sial delta) = Fin 0"
    by (simp_all add: r1 r2 r3 r4 jsum_finite)
  have "jsum (map2 jadd (sediment top_crust) (sediment delta)) = jsum (sediment top_crust)"
    using top r1 by (intro jsum_apply_delta [of _ n _ r1]) (simp_all add: crust_over_def finite_crust_def)
  moreover have "jsum (map2 jadd (sedimentary top_crust) (sedimentary delta)) = jsum (sedimentary top_crust)"
    using top r2 by (intro jsum_apply_delta [of _ n _ r2]) (simp_all add: crust_over_def finite_crust_def)
  moreover have "jsum (map2 jadd (metamorphic top_crust) (metamorphic delta)) = jsum (metamorphic top_crust)"
    using top r3 by (intro jsum_apply_delta [of _ n _ r3]) (simp_all add: crust_over_def finite_crust_def)
  moreover have "jsum (map2 jadd (sial top_crust) (sial delta)) = jsum (sial top_crust)"
    using top r4 by (intro jsum_apply_delta [of _ n _ r4]) (simp_all add: crust_over_def finite_crust_def)
  ultimately have "crust_total (apply_delta top_crust delta) = crust_total top_crust"
    by (simp add: crust_total_def apply_delta_def)
  with sums show ?thesis by (simp add: delta_def [symmetric] Let_def)
qed

theorem erosion_conserves_mass_witness:
  "(valid_grid pair2 2 \<and> finite_raster [Fin 1000, Fin 0] \<and> length [Fin 1000, Fin 0] = 2
      \<and> is_Fin (Fin 0) \<and> is_Fin (Fin 1) \<and> crust_over hill_crust 2 \<and> finite_crust hill_crust
      \<and> crust_over stale2 2 \<and> crust_over blank2 2)
   \<and> (let delta = fst (get_erosion [Fin 1000, Fin 0] pair2 (Fin 0) (Fin 1)
                          hill_crust stale2 blank2)
      in jsum (sediment delta) = Fin 0 \<and> jsum (sedimentary delta) = Fin 0
         \<and> jsum (metamorphic delta) = Fin 0 \<and> jsum (sial delta) = Fin 0
         \<and> crust_total (apply_delta hill_crust delta) = crust_total hill_crust)"
proof
  show "valid_grid pair2 2 \<and> finite_raster [Fin 1000, Fin 0] \<and> length [Fin 1000, Fin 0] = 2
      \<and> is_Fin (Fin 0) \<and> is_Fin (Fin 1) \<and> crust_over hill_crust 2 \<and> finite_crust hill_crust
      \<and> crust_over stale2 2 \<and> crust_over blank2 2"
    using pair2_admissible by blast
  show "let delta = fst (get_erosion [Fin 1000, Fin 0] pair2 (Fin 0) (Fin 1)
                          hill_crust stale2 blank2)
      in jsum (sediment delta) = Fin 0 \<and> jsum (sedimentary delta) = Fin 0
         \<and> jsum (metamorphic delta) = Fin 0 \<and> jsum (sial delta) = Fin 0
         \<and> crust_total (apply_delta hill_crust delta) = crust_total hill_crust"
    by (rule erosion_conserves_mass [OF pair2_admissible])
qed

subsection \<open>A step of no duration\<close>

lemma outbound_zero_timestep:
  assumes "fst a < length ws" "snd a < length ws"
  shows "outbound (map Fin ws) (Fin 0) a = Fin 0"
  using assms
  by (simp add: outbound_def raster_get_def jsub_def precipitation_def erosiveFactor_def Let_def)

lemma move_zero:
  assumes "fst a < length rs" "snd a < length rs"
  shows "move (Fin 0) a (map Fin rs) = map Fin rs"
proof -
  have "(map Fin rs)[fst a := jsub (raster_get (map Fin rs) (fst a)) (Fin 0)] = map Fin rs"
    using assms(1) by (simp add: update_sub_finite)
  moreover have "(map Fin rs)[snd a := jadd (raster_get (map Fin rs) (snd a)) (Fin 0)] = map Fin rs"
    using assms(2) by (simp add: update_add_finite)
  ultimately show ?thesis by (simp add: move_def Let_def)
qed

lemma fold_move_zero:
  assumes "\<forall>a \<in> set arrs. t a = Fin 0 \<and> fst a < length rs \<and> snd a < length rs"
  shows "fold (\<lambda>a. move (t a) a) arrs (map Fin rs) = map Fin rs"
  using assms by (induction arrs) (simp_all add: move_zero)

lemma transfer_field_zero:
  assumes "\<forall>a \<in> set arrs. fst a < n \<and> snd a < n \<and> is_Fin (raster_get fs (fst a))"
    and "length ws = n"
  shows "fold (\<lambda>arrow. move (jmul (outbound (map Fin ws) (Fin 0) arrow)
                              (raster_get fs (fst arrow))) arrow)
              arrs (replicate n (Fin 0)) = replicate n (Fin 0)"
proof -
  let ?t = "\<lambda>arrow. jmul (outbound (map Fin ws) (Fin 0) arrow) (raster_get fs (fst arrow))"
  have "\<forall>a \<in> set arrs. ?t a = Fin 0 \<and> fst a < length (replicate n (0::real))
          \<and> snd a < length (replicate n (0::real))"
  proof
    fix a assume a: "a \<in> set arrs"
    with assms have "outbound (map Fin ws) (Fin 0) a = Fin 0"
      by (intro outbound_zero_timestep) simp_all
    moreover obtain f where "raster_get fs (fst a) = Fin f"
      using assms a by (auto simp add: is_Fin_iff)
    ultimately have "?t a = Fin 0" by simp
    then show "?t a = Fin 0 \<and> fst a < length (replicate n (0::real))
                 \<and> snd a < length (replicate n (0::real))"
      using assms a by simp
  qed
  from fold_move_zero [OF this] show ?thesis by simp
qed

text \<open>
  C7.  On a valid grid, for finite displacement and sea level and bundles with one entry
  per cell, get_erosion with a time step of 0 leaves zero in every cell of the four delta
  rasters, whatever the crust holds.
\<close>

theorem erosion_zero_timestep:
  assumes g: "valid_grid g n"
    and dis: "finite_raster displacement" "length displacement = n"
    and sl: "is_Fin sealevel"
    and del: "crust_over crust_delta n" and scr: "crust_over crust_scratch n"
  shows "let delta = fst (get_erosion displacement g sealevel (Fin 0)
                            top_crust crust_delta crust_scratch)
         in sediment delta = replicate n (Fin 0) \<and> sedimentary delta = replicate n (Fin 0)
            \<and> metamorphic delta = replicate n (Fin 0) \<and> sial delta = replicate n (Fin 0)"
proof -
  from erosion_shape [OF g dis sl del scr, of "Fin 0" top_crust]
  obtain ws fr z where lws: "length ws = n"
    and delta: "fst (get_erosion displacement g sealevel (Fin 0) top_crust crust_delta crust_scratch)
                  = transfer_pass (arrows g) (map Fin ws) (Fin 0) fr z"
    and zero: "sediment z = replicate n (Fin 0)" "sedimentary z = replicate n (Fin 0)"
              "metamorphic z = replicate n (Fin 0)" "sial z = replicate n (Fin 0)"
    and fin: "\<forall>a \<in> set (arrows g). fst a < n \<and> snd a < n
                  \<and> is_Fin (raster_get (sediment fr) (fst a))
                  \<and> is_Fin (raster_get (sedimentary fr) (fst a))
                  \<and> is_Fin (raster_get (metamorphic fr) (fst a))
                  \<and> is_Fin (raster_get (sial fr) (fst a))"
    by blast
  have "sediment (transfer_pass (arrows g) (map Fin ws) (Fin 0) fr z) = replicate n (Fin 0)"
    unfolding transfer_pass_fields zero
    using fin lws by (intro transfer_field_zero) simp_all
  moreover
  have "sedimentary (transfer_pass (arrows g) (map Fin ws) (Fin 0) fr z) = replicate n (Fin 0)"
    unfolding transfer_pass_fields zero
    using fin lws by (intro transfer_field_zero) simp_all
  moreover
  have "metamorphic (transfer_pass (arrows g) (map Fin ws) (Fin 0) fr z) = replicate n (Fin 0)"
    unfolding transfer_pass_fields zero
    using fin lws by (intro transfer_field_zero) simp_all
  moreover
  have "sial (transfer_pass (arrows g) (map Fin ws) (Fin 0) fr z) = replicate n (Fin 0)"
    unfolding transfer_pass_fields zero
    using fin lws by (intro transfer_field_zero) simp_all
  ultimately show ?thesis by (simp add: delta Let_def)
qed

theorem erosion_zero_timestep_witness:
  "(valid_grid pair2 2 \<and> finite_raster [Fin 1000, Fin 0] \<and> length [Fin 1000, Fin 0] = 2
      \<and> is_Fin (Fin 0) \<and> crust_over stale2 2 \<and> crust_over blank2 2)
   \<and> (let delta = fst (get_erosion [Fin 1000, Fin 0] pair2 (Fin 0) (Fin 0)
                          hill_crust stale2 blank2)
      in sediment delta = replicate 2 (Fin 0) \<and> sedimentary delta = replicate 2 (Fin 0)
         \<and> metamorphic delta = replicate 2 (Fin 0) \<and> sial delta = replicate 2 (Fin 0))"
proof
  show "valid_grid pair2 2 \<and> finite_raster [Fin 1000, Fin 0] \<and> length [Fin 1000, Fin 0] = 2
      \<and> is_Fin (Fin 0) \<and> crust_over stale2 2 \<and> crust_over blank2 2"
    using pair2_admissible by blast
  show "let delta = fst (get_erosion [Fin 1000, Fin 0] pair2 (Fin 0) (Fin 0)
                          hill_crust stale2 blank2)
      in sediment delta = replicate 2 (Fin 0) \<and> sedimentary delta = replicate 2 (Fin 0)
         \<and> metamorphic delta = replicate 2 (Fin 0) \<and> sial delta = replicate 2 (Fin 0)"
    by (rule erosion_zero_timestep [OF pair2_admissible(1-4) pair2_admissible(8,9)])
qed

subsection \<open>What the delta bundle held before\<close>

text \<open>
  C9.  Two calls of get_erosion that differ only in what the rasters of crust_delta hold
  (rasters of the same lengths) return the same deltas and the same fractions.
\<close>

theorem erosion_ignores_old_delta:
  assumes "length (sediment d1) = length (sediment d2)"
    and "length (sedimentary d1) = length (sedimentary d2)"
    and "length (metamorphic d1) = length (metamorphic d2)"
    and "length (sial d1) = length (sial d2)"
    and "length (sima d1) = length (sima d2)"
  shows "get_erosion displacement g sealevel timestep top_crust d1 crust_scratch
           = get_erosion displacement g sealevel timestep top_crust d2 crust_scratch"
  using assms by (simp add: get_erosion_def Crust_reset_def)

theorem erosion_ignores_old_delta_witness:
  "(length (sediment stale2) = length (sediment blank2)
      \<and> length (sedimentary stale2) = length (sedimentary blank2)
      \<and> length (metamorphic stale2) = length (metamorphic blank2)
      \<and> length (sial stale2) = length (sial blank2)
      \<and> length (sima stale2) = length (sima blank2))
   \<and> get_erosion [Fin 1000, Fin 0] pair2 (Fin 0) (Fin 1) hill_crust stale2 blank2
       = get_erosion [Fin 1000, Fin 0] pair2 (Fin 0) (Fin 1) hill_crust blank2 blank2"
proof
  show h: "length (sediment stale2) = length (sediment blank2)
      \<and> length (sedimentary stale2) = length (sedimentary blank2)
      \<and> length (metamorphic stale2) = length (metamorphic blank2)
      \<and> length (sial stale2) = length (sial blank2)
      \<and> length (sima stale2) = length (sima blank2)"
    by (simp add: stale2_def blank2_def)
  show "get_erosion [Fin 1000, Fin 0] pair2 (Fin 0) (Fin 1) hill_crust stale2 blank2
       = get_erosion [Fin 1000, Fin 0] pair2 (Fin 0) (Fin 1) hill_crust blank2 blank2"
    using h by (intro erosion_ignores_old_delta) simp_all
qed

subsection \<open>Reservoirs driven below zero\<close>

text \<open>
  C2.  The fraction of a later reservoir is taken against what remains of the flux
  candidate after the earlier reservoirs, and the transfer pass multiplies it with the
  whole flux of the arrow.  On two cells with water heights 1000 and 0 the flux out of
  the first cell is 140.4; its 100 of sediment leave 40.4 of the candidate, its 50 of
  sedimentary rock give the fraction 1, and 140.4 of sedimentary rock are withdrawn from
  the 50 the cell holds.
\<close>

theorem erosion_drives_sedimentary_negative:
  "sedimentary (apply_delta hill_crust
      (fst (get_erosion [Fin 1000, Fin 0] pair2 (Fin 0) (Fin 1) hill_crust blank2 blank2)))
     = [Fin (- (452 / 5)), Fin (702 / 5)]"
  by code_simp

text \<open>
  The first reservoir is not overdrawn.  The sum of the flux of the arrows that leave a
  cell is its flux candidate, the fraction of sediment times that candidate is at most the
  sediment of the cell, and what flows in is not negative: with a time step that is not
  negative, sediment plus its delta is not negative in any cell.
\<close>

lemma flux_pass_finite:
  assumes "\<forall>a \<in> set arrs. fst a < length os \<and> out a = Fin (outr a)"
  shows "fold (\<lambda>arrow obt. obt[fst arrow := jadd (raster_get obt (fst arrow)) (out arrow)])
              arrs (map Fin os)
           = map Fin (map (\<lambda>i. os ! i + sum_list (map outr (filter (\<lambda>a. fst a = i) arrs)))
                          [0..<length os])"
  using assms
proof (induction arrs arbitrary: os)
  case Nil
  show ?case by (simp add: map_nth)
next
  case (Cons a arrs)
  let ?os = "os[fst a := os ! fst a + outr a]"
  have a: "fst a < length os" "out a = Fin (outr a)" using Cons.prems by simp_all
  have step: "(map Fin os)[fst a := jadd (raster_get (map Fin os) (fst a)) (out a)] = map Fin ?os"
    using a by (simp add: update_add_finite)
  have rest: "\<forall>a \<in> set arrs. fst a < length ?os \<and> out a = Fin (outr a)"
    using Cons.prems by simp
  have "map (\<lambda>i. ?os ! i + sum_list (map outr (filter (\<lambda>a. fst a = i) arrs))) [0..<length ?os]
          = map (\<lambda>i. os ! i + sum_list (map outr (filter (\<lambda>b. fst b = i) (a # arrs))))
                [0..<length os]"
    using a(1) by (auto simp add: nth_list_update)
  with Cons.IH [OF rest] step show ?case by simp
qed

lemma move_nth:
  assumes "fst a < length rs" "snd a < length rs"
  shows "move (Fin x) a (map Fin rs)
           = map Fin (map (\<lambda>i. rs ! i + (if snd a = i then x else 0) - (if fst a = i then x else 0))
                          [0..<length rs])"
proof -
  let ?r1 = "rs[fst a := rs ! fst a - x]"
  let ?r2 = "?r1[snd a := ?r1 ! snd a + x]"
  have "(map Fin rs)[fst a := jsub (raster_get (map Fin rs) (fst a)) (Fin x)] = map Fin ?r1"
    using assms(1) by (rule update_sub_finite)
  moreover have "(map Fin ?r1)[snd a := jadd (raster_get (map Fin ?r1) (snd a)) (Fin x)]
                   = map Fin ?r2"
    using assms(2) by (intro update_add_finite) simp
  ultimately have "move (Fin x) a (map Fin rs) = map Fin ?r2"
    by (simp add: move_def Let_def)
  moreover have "?r2 = map (\<lambda>i. rs ! i + (if snd a = i then x else 0) - (if fst a = i then x else 0))
                          [0..<length rs]"
    using assms by (intro nth_equalityI) (auto simp add: nth_list_update)
  ultimately show ?thesis by simp
qed

lemma fold_move_nth:
  assumes "\<forall>a \<in> set arrs. fst a < length rs \<and> snd a < length rs"
  shows "fold (\<lambda>a. move (Fin (t a)) a) arrs (map Fin rs)
           = map Fin (map (\<lambda>i. rs ! i + sum_list (map t (filter (\<lambda>a. snd a = i) arrs))
                                     - sum_list (map t (filter (\<lambda>a. fst a = i) arrs)))
                          [0..<length rs])"
  using assms
proof (induction arrs arbitrary: rs)
  case Nil
  show ?case by (simp add: map_nth)
next
  case (Cons a arrs)
  let ?rs = "map (\<lambda>i. rs ! i + (if snd a = i then t a else 0) - (if fst a = i then t a else 0))
                 [0..<length rs]"
  have a: "fst a < length rs" "snd a < length rs" using Cons.prems by simp_all
  have rest: "\<forall>a \<in> set arrs. fst a < length ?rs \<and> snd a < length ?rs"
    using Cons.prems by simp
  have "map (\<lambda>i. ?rs ! i + sum_list (map t (filter (\<lambda>a. snd a = i) arrs))
                     - sum_list (map t (filter (\<lambda>a. fst a = i) arrs))) [0..<length ?rs]
          = map (\<lambda>i. rs ! i + sum_list (map t (filter (\<lambda>b. snd b = i) (a # arrs)))
                     - sum_list (map t (filter (\<lambda>b. fst b = i) (a # arrs)))) [0..<length rs]"
    by auto
  with Cons.IH [OF rest] move_nth [OF a, of "t a"] show ?case by simp
qed


lemma outbound_real:
  assumes "fst a < length ws" "snd a < length ws"
  shows "outbound (map Fin ws) (Fin t) a
           = Fin (if 0 < ws ! fst a - ws ! snd a
                  then (ws ! fst a - ws ! snd a) * 780000 * t * (18 / 100000000) else 0)"
  using assms
  by (simp add: outbound_def raster_get_def jsub_def precipitation_def erosiveFactor_def Let_def)

lemma sediment_fraction_bound:
  assumes k: "0 < k" and s: "0 \<le> s" and o: "0 \<le> c"
  shows "\<exists>f. fst (withdraw (Fin s) (Fin c) (Fin (real k))) = Fin f \<and> 0 \<le> f \<and> f * c \<le> s"
proof (cases "c = 0")
  case True
  from stored_fraction_finite [OF k, of "Fin s" "Fin c"] obtain f where
    "fst (withdraw (Fin s) (Fin c) (Fin (real k))) = Fin f" "0 \<le> f" by blast
  with True s show ?thesis by auto
next
  case False
  with o have c: "0 < c" by simp
  define m where "m = min 1 (s / c)"
  have q: "0 \<le> s / c" using s c by simp
  have m: "0 \<le> m" "m * c \<le> s"
    using s c by (simp_all add: m_def min_def field_simps)
  have "clamp01 (jdiv (Fin s) (Fin c)) = Fin m"
    using q c by (auto simp add: m_def clamp01_def jlt_def min_def)
  then have w: "fst (withdraw (Fin s) (Fin c) (Fin (real k))) = Fin (m / real k)"
    using k by (auto simp add: withdraw_def jor0_def Let_def)
  have "1 \<le> real k" using k by simp
  then have "m / real k \<le> m / 1"
    using m(1) by (intro divide_left_mono) simp_all
  then have "m / real k \<le> m" by simp
  then have "m / real k * c \<le> m * c"
    using c by (intro mult_right_mono) simp_all
  with m(2) have "m / real k * c \<le> s" by linarith
  moreover have "0 \<le> m / real k" using m(1) by simp
  ultimately show ?thesis using w by blast
qed


lemma erosion_keeps_sediment_nonnegative:
  assumes g: "valid_grid g n"
    and dis: "finite_raster displacement" "length displacement = n"
    and sl: "is_Fin sealevel" and dt: "0 \<le> t"
    and sed: "sediment top_crust = map Fin ss" "length ss = n" "\<forall>s \<in> set ss. 0 \<le> s"
    and del: "crust_over crust_delta n" and scr: "crust_over crust_scratch n"
    and i: "i < n"
  shows "\<exists>r. sediment (apply_delta top_crust
                 (fst (get_erosion displacement g sealevel (Fin t)
                         top_crust crust_delta crust_scratch))) ! i = Fin r \<and> 0 \<le> r"
proof -
  obtain ds where ds: "displacement = map Fin ds" using dis(1) by (auto simp add: finite_raster_iff)
  obtain s where s: "sealevel = Fin s" using sl by (auto simp add: is_Fin_iff)
  define ws where "ws = map (\<lambda>d. if 0 < d - s then d - s else 0) ds"
  have wh: "max_scalar (sub_scalar displacement sealevel) (Fin 0) = map Fin ws"
    by (simp add: ds s ws_def water_height_finite)
  have lws: "length ws = n" using dis(2) by (simp add: ws_def ds)
  define outr where "outr = (\<lambda>a. if 0 < ws ! fst a - ws ! snd a
                              then (ws ! fst a - ws ! snd a) * 780000 * t * (18 / 100000000)
                              else 0)"
  have outr_nonneg: "0 \<le> outr a" for a
    using dt by (simp add: outr_def)
  have arrow: "fst a < n \<and> snd a < n \<and> outbound (map Fin ws) (Fin t) a = Fin (outr a)"
    if "a \<in> set (arrows g)" for a
    using valid_grid_count [OF g that] lws by (simp add: outr_def outbound_real)
  define os where "os = map (\<lambda>j. sum_list (map outr (filter (\<lambda>a. fst a = j) (arrows g)))) [0..<n]"
  have los: "length os = n" by (simp add: os_def)
  have "flux_pass (arrows g) (map Fin ws) (Fin t) (map Fin (replicate n 0))
          = map Fin (map (\<lambda>j. replicate n 0 ! j
                                + sum_list (map outr (filter (\<lambda>a. fst a = j) (arrows g))))
                         [0..<length (replicate n (0::real))])"
    unfolding flux_pass_def using arrow by (intro flux_pass_finite) simp
  then have obt: "flux_pass (arrows g) (map Fin ws) (Fin t) (replicate n (Fin 0)) = map Fin os"
    by (simp add: os_def)
  define fr where "fr = fraction_pass top_crust (neighbor_count g) (map Fin os) crust_scratch"
  define f where "f = (\<lambda>j. the_Fin (fraction1 top_crust (neighbor_count g) (map Fin os) j))"
  have lfr: "crust_over fr n" by (simp add: fr_def fraction_pass_length scr)
  have frac: "raster_get (sediment fr) (fst a) = Fin (f (fst a)) \<and> 0 \<le> f (fst a)
              \<and> f (fst a) * os ! fst a \<le> ss ! fst a" if "a \<in> set (arrows g)" for a
  proof -
    let ?j = "fst a"
    from valid_grid_count [OF g that]
    have a: "?j < n"
      "count_get (neighbor_count g) ?j = Fin (real (neighbor_count g ! ?j))"
      "0 < neighbor_count g ! ?j" by simp_all
    have j: "?j < length (map Fin os)" using a(1) los by simp
    have sc: "crust_over crust_scratch (length (map Fin os))" using scr los by simp
    have nth: "sediment fr ! ?j = fraction1 top_crust (neighbor_count g) (map Fin os) ?j"
      unfolding fr_def by (rule fraction_pass_nth(1) [OF j sc])
    have "0 \<le> ss ! ?j" using sed(2,3) a(1) by simp
    moreover have "0 \<le> sum_list (map outr (filter (\<lambda>b. fst b = ?j) (arrows g)))"
      by (intro sum_list_nonneg) (auto simp add: outr_nonneg)
    then have "0 \<le> os ! ?j"
      using a(1) by (simp add: os_def)
    ultimately obtain x where x:
      "fst (withdraw (Fin (ss ! ?j)) (Fin (os ! ?j)) (Fin (real (neighbor_count g ! ?j)))) = Fin x"
      "0 \<le> x" "x * os ! ?j \<le> ss ! ?j"
      using sediment_fraction_bound [OF a(3)] by blast
    have "fraction1 top_crust (neighbor_count g) (map Fin os) ?j
            = fst (withdraw (Fin (ss ! ?j)) (Fin (os ! ?j)) (Fin (real (neighbor_count g ! ?j))))"
      using a(1) los sed(1,2)
      by (simp add: fraction1_def cell_fractions_def a(2) raster_get_def Let_def split: prod.splits)
    with x have "fraction1 top_crust (neighbor_count g) (map Fin os) ?j = Fin x" by simp
    then have "f ?j = x" "sediment fr ! ?j = Fin x" by (simp_all add: f_def nth)
    with x a(1) lfr show ?thesis by (simp add: raster_get_def crust_over_def)
  qed
  define tr where "tr = (\<lambda>a. outr a * f (fst a))"
  have "sediment (fst (get_erosion displacement g sealevel (Fin t)
                         top_crust crust_delta crust_scratch))
          = fold (\<lambda>a. move (jmul (outbound (map Fin ws) (Fin t) a)
                               (raster_get (sediment fr) (fst a))) a)
                 (arrows g) (replicate n (Fin 0))"
    using del
    by (simp add: get_erosion_def wh dis(2) obt fr_def Let_def transfer_pass_fields
          Crust_reset_def crust_over_def)
  also have "\<dots> = fold (\<lambda>a. move (Fin (tr a)) a) (arrows g) (map Fin (replicate n 0))"
    using arrow frac by (intro fold_cong) (simp_all add: tr_def)
  also have "\<dots> = map Fin (map (\<lambda>j. replicate n 0 ! j
                                     + sum_list (map tr (filter (\<lambda>a. snd a = j) (arrows g)))
                                     - sum_list (map tr (filter (\<lambda>a. fst a = j) (arrows g))))
                              [0..<length (replicate n (0::real))])"
    using arrow by (intro fold_move_nth) simp
  finally have delta: "sediment (fst (get_erosion displacement g sealevel (Fin t)
                         top_crust crust_delta crust_scratch)) ! i
        = Fin (sum_list (map tr (filter (\<lambda>a. snd a = i) (arrows g)))
               - sum_list (map tr (filter (\<lambda>a. fst a = i) (arrows g))))"
    and ldelta: "length (sediment (fst (get_erosion displacement g sealevel (Fin t)
                         top_crust crust_delta crust_scratch))) = n"
    using i by simp_all
  have inflow: "0 \<le> sum_list (map tr (filter (\<lambda>a. snd a = i) (arrows g)))"
    using frac by (intro sum_list_nonneg) (auto simp add: tr_def outr_nonneg)
  have outflow: "sum_list (map tr (filter (\<lambda>a. fst a = i) (arrows g))) \<le> ss ! i"
  proof (cases "filter (\<lambda>a. fst a = i) (arrows g)")
    case Nil
    then show ?thesis using sed(2,3) i by simp
  next
    case (Cons a as)
    then have "a \<in> set (filter (\<lambda>a. fst a = i) (arrows g))" by simp
    then have a: "a \<in> set (arrows g)" "fst a = i" by simp_all
    have "map tr (filter (\<lambda>a. fst a = i) (arrows g))
            = map (\<lambda>a. outr a * f i) (filter (\<lambda>a. fst a = i) (arrows g))"
      by (simp add: tr_def)
    then have "sum_list (map tr (filter (\<lambda>a. fst a = i) (arrows g)))
                 = sum_list (map (\<lambda>a. outr a * f i) (filter (\<lambda>a. fst a = i) (arrows g)))"
      by (rule arg_cong)
    also have "\<dots> = sum_list (map outr (filter (\<lambda>a. fst a = i) (arrows g))) * f i"
      by (rule sum_list_mult_const)
    also have "\<dots> = f i * os ! i" using i by (simp add: os_def)
    also have "\<dots> \<le> ss ! i" using frac [OF a(1)] a(2) by simp
    finally show ?thesis .
  qed
  have "sediment (apply_delta top_crust
          (fst (get_erosion displacement g sealevel (Fin t) top_crust crust_delta crust_scratch))) ! i
        = Fin (ss ! i + (sum_list (map tr (filter (\<lambda>a. snd a = i) (arrows g)))
                         - sum_list (map tr (filter (\<lambda>a. fst a = i) (arrows g)))))"
    using i sed(1,2) ldelta delta by (simp add: apply_delta_def)
  moreover have "0 \<le> ss ! i + (sum_list (map tr (filter (\<lambda>a. snd a = i) (arrows g)))
                                 - sum_list (map tr (filter (\<lambda>a. fst a = i) (arrows g))))"
    using inflow outflow by linarith
  ultimately show ?thesis by blast
qed

subsection \<open>The withdrawal rule\<close>

text \<open>
  The rule of the specification and the code part after the first reservoir: with a flux
  candidate of 4 and 1 of sediment the code goes on with 4 * (1 - 1/4) = 3, the rule as
  worded with 4 - 4 * (1 - 1/4) = 1, and 2 of sedimentary rock give the fractions 2/3 and 1.
\<close>

theorem fraction_rule_counterexample:
  "cell_fractions cell1 [1] [Fin 4] 0 = (Fin (1 / 4), Fin (2 / 3), Fin 0, Fin 0)
   \<and> spec_cell_fractions cell1 [1] [Fin 4] 0 = (Fin (1 / 4), Fin 1, Fin 0, Fin 0)
   \<and> sedimentary (fraction_pass cell1 [1] [Fin 4] blank1) = [Fin (2 / 3)]"
  by code_simp

lemma cell_fractions_unfold:
  "cell_fractions top_crust counts obt i =
    (let n = count_get counts i;
         r1 = raster_get obt i;
         f1 = clamp01 (jdiv (raster_get (sediment top_crust) i) r1);
         r2 = jmul r1 (jsub (Fin 1) f1);
         f2 = clamp01 (jdiv (raster_get (sedimentary top_crust) i) r2);
         r3 = jmul r2 (jsub (Fin 1) f2);
         f3 = clamp01 (jdiv (raster_get (metamorphic top_crust) i) r3);
         r4 = jmul r3 (jsub (Fin 1) f3);
         f4 = clamp01 (jdiv (raster_get (sial top_crust) i) r4)
     in (jor0 (jdiv f1 n), jor0 (jdiv f2 n), jor0 (jdiv f3 n), jor0 (jdiv f4 n)))"
  by (simp add: cell_fractions_def withdraw_def Let_def)

text \<open>
  C3.  For every cell the second loop of get_erosion visits, the stored fractions are those
  of sediment, sedimentary, metamorphic and sial in this order: the fraction of a
  reservoir is its quantity over the remaining flux candidate, clamped to 0 and 1, the
  stored value is the fraction over the neighbour count (or 0), and the remaining candidate
  is multiplied by 1 minus the fraction before the next reservoir.
\<close>

theorem fraction_pass_rule:
  assumes "i < length obt" and "crust_over crust_scratch (length obt)"
  shows "let fr = fraction_pass top_crust counts obt crust_scratch;
             n = count_get counts i;
             r1 = raster_get obt i;
             f1 = clamp01 (jdiv (raster_get (sediment top_crust) i) r1);
             r2 = jmul r1 (jsub (Fin 1) f1);
             f2 = clamp01 (jdiv (raster_get (sedimentary top_crust) i) r2);
             r3 = jmul r2 (jsub (Fin 1) f2);
             f3 = clamp01 (jdiv (raster_get (metamorphic top_crust) i) r3);
             r4 = jmul r3 (jsub (Fin 1) f3);
             f4 = clamp01 (jdiv (raster_get (sial top_crust) i) r4)
         in sediment fr ! i = jor0 (jdiv f1 n) \<and> sedimentary fr ! i = jor0 (jdiv f2 n)
            \<and> metamorphic fr ! i = jor0 (jdiv f3 n) \<and> sial fr ! i = jor0 (jdiv f4 n)"
  using fraction_pass_nth [OF assms, of top_crust counts]
  by (simp add: fraction1_def fraction2_def fraction3_def fraction4_def
        cell_fractions_unfold Let_def)

theorem fraction_pass_rule_witness:
  "((0::nat) < length [Fin 4] \<and> crust_over blank1 (length [Fin 4]))
   \<and> (let fr = fraction_pass cell1 [1] [Fin 4] blank1;
          n = count_get [1] 0;
          r1 = raster_get [Fin 4] 0;
          f1 = clamp01 (jdiv (raster_get (sediment cell1) 0) r1);
          r2 = jmul r1 (jsub (Fin 1) f1);
          f2 = clamp01 (jdiv (raster_get (sedimentary cell1) 0) r2);
          r3 = jmul r2 (jsub (Fin 1) f2);
          f3 = clamp01 (jdiv (raster_get (metamorphic cell1) 0) r3);
          r4 = jmul r3 (jsub (Fin 1) f3);
          f4 = clamp01 (jdiv (raster_get (sial cell1) 0) r4)
      in sediment fr ! 0 = jor0 (jdiv f1 n) \<and> sedimentary fr ! 0 = jor0 (jdiv f2 n)
         \<and> metamorphic fr ! 0 = jor0 (jdiv f3 n) \<and> sial fr ! 0 = jor0 (jdiv f4 n))"
proof
  show h: "(0::nat) < length [Fin 4] \<and> crust_over blank1 (length [Fin 4])"
    by code_simp
  from h have h1: "(0::nat) < length [Fin 4]" and h2: "crust_over blank1 (length [Fin 4])"
    by blast+
  show "let fr = fraction_pass cell1 [1] [Fin 4] blank1;
          n = count_get [1] 0;
          r1 = raster_get [Fin 4] 0;
          f1 = clamp01 (jdiv (raster_get (sediment cell1) 0) r1);
          r2 = jmul r1 (jsub (Fin 1) f1);
          f2 = clamp01 (jdiv (raster_get (sedimentary cell1) 0) r2);
          r3 = jmul r2 (jsub (Fin 1) f2);
          f3 = clamp01 (jdiv (raster_get (metamorphic cell1) 0) r3);
          r4 = jmul r3 (jsub (Fin 1) f3);
          f4 = clamp01 (jdiv (raster_get (sial cell1) 0) r4)
      in sediment fr ! 0 = jor0 (jdiv f1 n) \<and> sedimentary fr ! 0 = jor0 (jdiv f2 n)
         \<and> metamorphic fr ! 0 = jor0 (jdiv f3 n) \<and> sial fr ! 0 = jor0 (jdiv f4 n)"
    by (rule fraction_pass_rule [OF h1 h2])
qed

text \<open>On finite numbers the clamped quotient and the new remainder are the real ones.\<close>

lemma clamp01_jdiv_finite:
  "r \<noteq> 0 \<Longrightarrow> clamp01 (jdiv (Fin q) (Fin r)) = Fin (max 0 (min 1 (q / r)))"
  by (simp add: clamp01_def jlt_def max_def min_def)

lemma remaining_finite:
  "jmul (Fin r) (jsub (Fin 1) (Fin f)) = Fin (r * (1 - f))"
  by (simp add: jsub_def)

subsection \<open>Degenerate divisions\<close>

text \<open>
  A stored fraction need not be zero when a division by zero is met: 5 of sediment over a
  flux candidate of 0 are clamped to the fraction 1, and over a neighbour count of 0 that
  fraction is stored as infinity.
\<close>

theorem degenerate_fraction_counterexample:
  "raster_get [Fin 0] 0 = Fin 0
   \<and> sediment (fraction_pass heap1 [1] [Fin 0] blank1) = [Fin 1]
   \<and> sediment (fraction_pass heap1 [0] [Fin 0] blank1) = [PInf]"
  by code_simp

lemma withdraw_nothing: "fst (withdraw (Fin 0) candidate count) = Fin 0"
proof -
  have "clamp01 (jdiv (Fin 0) candidate) = Fin 0 \<or> clamp01 (jdiv (Fin 0) candidate) = NaN"
    by (cases candidate) (simp_all add: clamp01_def jlt_def)
  moreover have "jor0 (jdiv (Fin 0) count) = Fin 0"
    by (cases count) (simp_all add: jor0_def)
  moreover have "jor0 (jdiv NaN count) = Fin 0"
    by (simp add: jor0_def)
  ultimately show ?thesis by (auto simp add: withdraw_def Let_def)
qed

lemma withdraw_not_NaN: "fst (withdraw quantity candidate count) \<noteq> NaN"
  by (simp add: withdraw_def Let_def jor0_not_NaN)

lemma cell_fractions_withdraw:
  "\<exists>o1 o2 o3.
     fraction1 top_crust counts obt i = fst (withdraw (raster_get (sediment top_crust) i) (raster_get obt i) (count_get counts i))
   \<and> fraction2 top_crust counts obt i = fst (withdraw (raster_get (sedimentary top_crust) i) o1 (count_get counts i))
   \<and> fraction3 top_crust counts obt i = fst (withdraw (raster_get (metamorphic top_crust) i) o2 (count_get counts i))
   \<and> fraction4 top_crust counts obt i = fst (withdraw (raster_get (sial top_crust) i) o3 (count_get counts i))"
proof -
  let ?n = "count_get counts i"
  obtain f1 o1 where w1: "withdraw (raster_get (sediment top_crust) i) (raster_get obt i) ?n = (f1, o1)"
    by (cases "withdraw (raster_get (sediment top_crust) i) (raster_get obt i) ?n")
  obtain f2 o2 where w2: "withdraw (raster_get (sedimentary top_crust) i) o1 ?n = (f2, o2)"
    by (cases "withdraw (raster_get (sedimentary top_crust) i) o1 ?n")
  obtain f3 o3 where w3: "withdraw (raster_get (metamorphic top_crust) i) o2 ?n = (f3, o3)"
    by (cases "withdraw (raster_get (metamorphic top_crust) i) o2 ?n")
  obtain f4 o4 where w4: "withdraw (raster_get (sial top_crust) i) o3 ?n = (f4, o4)"
    by (cases "withdraw (raster_get (sial top_crust) i) o3 ?n")
  have c: "cell_fractions top_crust counts obt i = (f1, f2, f3, f4)"
    by (simp add: cell_fractions_def w1 w2 w3 w4)
  show ?thesis
    by (intro exI [of _ o1] exI [of _ o2] exI [of _ o3])
       (simp add: fraction1_def fraction2_def fraction3_def fraction4_def c w1 w2 w3 w4)
qed

lemma withdraw_all_of_nothing:
  "0 < q \<Longrightarrow> 0 < k \<Longrightarrow> fst (withdraw (Fin q) (Fin 0) (Fin (real k))) = Fin (1 / real k)"
  by (simp add: withdraw_def clamp01_def jor0_def Let_def)

text \<open>
  C8.  For a cell whose four reservoirs are all zero the second loop of get_erosion stores
  zero for all four fractions, whatever the flux candidate and the neighbour count of the
  cell; and no fraction it stores for any cell is not-a-number.
\<close>

theorem degenerate_fractions:
  assumes "i < length obt" and "crust_over crust_scratch (length obt)"
  shows "let fr = fraction_pass top_crust counts obt crust_scratch
         in (raster_get (sediment top_crust) i = Fin 0
               \<and> raster_get (sedimentary top_crust) i = Fin 0
               \<and> raster_get (metamorphic top_crust) i = Fin 0
               \<and> raster_get (sial top_crust) i = Fin 0
             \<longrightarrow> sediment fr ! i = Fin 0 \<and> sedimentary fr ! i = Fin 0
                 \<and> metamorphic fr ! i = Fin 0 \<and> sial fr ! i = Fin 0)
            \<and> sediment fr ! i \<noteq> NaN \<and> sedimentary fr ! i \<noteq> NaN
            \<and> metamorphic fr ! i \<noteq> NaN \<and> sial fr ! i \<noteq> NaN"
proof -
  note nth = fraction_pass_nth [OF assms, of top_crust counts]
  from cell_fractions_withdraw [of top_crust counts obt i] obtain o1 o2 o3 where
    w: "fraction1 top_crust counts obt i
          = fst (withdraw (raster_get (sediment top_crust) i) (raster_get obt i) (count_get counts i))"
       "fraction2 top_crust counts obt i
          = fst (withdraw (raster_get (sedimentary top_crust) i) o1 (count_get counts i))"
       "fraction3 top_crust counts obt i
          = fst (withdraw (raster_get (metamorphic top_crust) i) o2 (count_get counts i))"
       "fraction4 top_crust counts obt i
          = fst (withdraw (raster_get (sial top_crust) i) o3 (count_get counts i))"
    by blast
  show ?thesis
    unfolding Let_def nth w
    by (simp add: withdraw_not_NaN withdraw_nothing)
qed

theorem degenerate_fractions_witness:
  "((0::nat) < length [Fin 0] \<and> crust_over blank1 (length [Fin 0]))
   \<and> (raster_get (sediment blank1) 0 = Fin 0 \<and> raster_get (sedimentary blank1) 0 = Fin 0
        \<and> raster_get (metamorphic blank1) 0 = Fin 0 \<and> raster_get (sial blank1) 0 = Fin 0)
   \<and> (let fr = fraction_pass blank1 [0] [Fin 0] heap1
      in (raster_get (sediment blank1) 0 = Fin 0
            \<and> raster_get (sedimentary blank1) 0 = Fin 0
            \<and> raster_get (metamorphic blank1) 0 = Fin 0
            \<and> raster_get (sial blank1) 0 = Fin 0
          \<longrightarrow> sediment fr ! 0 = Fin 0 \<and> sedimentary fr ! 0 = Fin 0
              \<and> metamorphic fr ! 0 = Fin 0 \<and> sial fr ! 0 = Fin 0)
         \<and> sediment fr ! 0 \<noteq> NaN \<and> sedimentary fr ! 0 \<noteq> NaN
         \<and> metamorphic fr ! 0 \<noteq> NaN \<and> sial fr ! 0 \<noteq> NaN)"
proof (intro conjI)
  show h1: "(0::nat) < length [Fin 0]" by simp
  show h2: "crust_over blank1 (length [Fin 0])" by code_simp
  have h3: "crust_over heap1 (length [Fin 0])" by code_simp
  show "raster_get (sediment blank1) 0 = Fin 0" "raster_get (sedimentary blank1) 0 = Fin 0"
    "raster_get (metamorphic blank1) 0 = Fin 0" "raster_get (sial blank1) 0 = Fin 0"
    by code_simp+
  show "let fr = fraction_pass blank1 [0] [Fin 0] heap1
      in (raster_get (sediment blank1) 0 = Fin 0
            \<and> raster_get (sedimentary blank1) 0 = Fin 0
            \<and> raster_get (metamorphic blank1) 0 = Fin 0
            \<and> raster_get (sial blank1) 0 = Fin 0
          \<longrightarrow> sediment fr ! 0 = Fin 0 \<and> sedimentary fr ! 0 = Fin 0
              \<and> metamorphic fr ! 0 = Fin 0 \<and> sial fr ! 0 = Fin 0)
         \<and> sediment fr ! 0 \<noteq> NaN \<and> sedimentary fr ! 0 \<noteq> NaN
         \<and> metamorphic fr ! 0 \<noteq> NaN \<and> sial fr ! 0 \<noteq> NaN"
    by (rule degenerate_fractions [OF h1 h3])
qed

end
